theory Spec2Isabelle
  imports Main "HOL-Library.Word" "HOL-Library.Sublist" "HOL-Library.AList"
begin

unbundle bit_operations_syntax

section \<open>Go values\<close>

text \<open>
  A Go \<^verbatim>\<open>string\<close> is a sequence of bytes; it is modelled as a \<^typ>\<open>string\<close>
  (a list of 8-bit characters), so \<^verbatim>\<open>len(s)\<close> is \<^term>\<open>length s\<close> and
  \<^verbatim>\<open>s[i]\<close> is a byte. A \<^verbatim>\<open>rune\<close> is a code point, modelled as a natural
  number. \<^verbatim>\<open>uint32\<close> and \<^verbatim>\<open>uint16\<close> are words, so their arithmetic wraps
  around as in Go. The \<^verbatim>\<open>int64\<close> and \<^verbatim>\<open>int\<close> values of the program (row ids,
  priorities, counts, widths, timestamps) stay far from the bounds of 64 bits and are
  modelled as \<^typ>\<open>int\<close>; the conversion \<^verbatim>\<open>uint32(count)\<close> keeps the low 32 bits.
\<close>

type_synonym rune = nat
type_synonym u32 = "32 word"
type_synonym u16 = "16 word"

definition LF :: char where "LF = CHR 0x0A"
definition CR :: char where "CR = CHR 0x0D"
definition SOH :: char where "SOH = CHR 0x01"

subsection \<open>Package strings, for one-byte patterns\<close>

text \<open>
  \<^verbatim>\<open>strings.ReplaceAll(s, old, new)\<close> where \<^verbatim>\<open>old\<close> and \<^verbatim>\<open>new\<close> are one-byte
  strings: every occurrence of the byte is replaced.
\<close>

definition ReplaceAllByte :: "string \<Rightarrow> char \<Rightarrow> char \<Rightarrow> string" where
  "ReplaceAllByte s old new = map (\<lambda>c. if c = old then new else c) s"

text \<open>
  \<^verbatim>\<open>strings.TrimRight(s, cutset)\<close> for a cutset of one ASCII byte: all trailing
  occurrences of the byte are removed.
\<close>

definition TrimRightByte :: "string \<Rightarrow> char \<Rightarrow> string" where
  "TrimRightByte s c = rev (dropWhile (\<lambda>x. x = c) (rev s))"

subsection \<open>UTF-8 and package unicode\<close>

text \<open>
  \<^verbatim>\<open>utf8.DecodeRuneInString\<close>: the first rune of a string and its width in bytes.
  A byte that does not begin a well-formed sequence decodes to \<^verbatim>\<open>RuneError\<close>
  (U+FFFD) with width 1. The conversion \<^verbatim>\<open>[]rune(s)\<close> decodes in this way.
\<close>

definition RuneError :: rune where "RuneError = 0xFFFD"

fun DecodeRuneInString :: "string \<Rightarrow> rune \<times> nat" where
  "DecodeRuneInString [] = (RuneError, 0)"
| "DecodeRuneInString (c0 # s) =
     (let s0 = (of_char c0 :: nat) in
      if s0 < 0x80 then (s0, 1)
      else if s0 < 0xC2 \<or> 0xF4 < s0 then (RuneError, 1)
      else
        let sz = (if s0 < 0xE0 then 2 else if s0 < 0xF0 then 3 else 4 :: nat);
            lo = (if s0 = 0xE0 then 0xA0 else if s0 = 0xF0 then 0x90 else 0x80 :: nat);
            hi = (if s0 = 0xED then 0x9F else if s0 = 0xF4 then 0x8F else 0xBF :: nat)
        in if Suc (length s) < sz then (RuneError, 1)
           else
             let s1 = (of_char (s ! 0) :: nat) in
             if s1 < lo \<or> hi < s1 then (RuneError, 1)
             else if sz \<le> 2 then ((s0 mod 32) * 64 + s1 mod 64, 2)
             else
               let s2 = (of_char (s ! 1) :: nat) in
               if s2 < 0x80 \<or> 0xBF < s2 then (RuneError, 1)
               else if sz \<le> 3
                 then ((s0 mod 16) * 4096 + (s1 mod 64) * 64 + s2 mod 64, 3)
               else
                 let s3 = (of_char (s ! 2) :: nat) in
                 if s3 < 0x80 \<or> 0xBF < s3 then (RuneError, 1)
                 else ((s0 mod 8) * 262144 + (s1 mod 64) * 4096
                        + (s2 mod 64) * 64 + s3 mod 64, 4))"

text \<open>\<^verbatim>\<open>[]rune(s)\<close>. The width of a rune of a non-empty string is at least 1.\<close>

fun ToRunes :: "string \<Rightarrow> rune list" where
  "ToRunes [] = []"
| "ToRunes (c # s) =
     (case DecodeRuneInString (c # s) of (r, w) \<Rightarrow> r # ToRunes (drop (w - 1) s))"

text \<open>
  \<^verbatim>\<open>utf8.AppendRune\<close>, which \<^verbatim>\<open>strings.Builder.WriteRune\<close> and \<^verbatim>\<open>string(runes)\<close>
  use: surrogates and values beyond U+10FFFF are written as U+FFFD.
\<close>

definition EncodeRune :: "rune \<Rightarrow> string" where
  "EncodeRune r =
     (if r \<le> 0x7F then [char_of r]
      else if r \<le> 0x7FF then [char_of (0xC0 + r div 64), char_of (0x80 + r mod 64)]
      else if 0x10FFFF < r \<or> (0xD800 \<le> r \<and> r \<le> 0xDFFF)
        then [CHR 0xEF, CHR 0xBF, CHR 0xBD]
      else if r \<le> 0xFFFF
        then [char_of (0xE0 + r div 4096), char_of (0x80 + (r div 64) mod 64),
              char_of (0x80 + r mod 64)]
      else [char_of (0xF0 + r div 262144), char_of (0x80 + (r div 4096) mod 64),
            char_of (0x80 + (r div 64) mod 64), char_of (0x80 + r mod 64)])"

text \<open>\<^verbatim>\<open>string(runes)\<close>\<close>

definition FromRunes :: "rune list \<Rightarrow> string" where
  "FromRunes rs = concat (map EncodeRune rs)"

text \<open>
  \<^verbatim>\<open>unicode.IsSpace\<close>: in Latin-1 the characters tab, line feed, vertical tab, form
  feed, carriage return, space, U+0085 and U+00A0; beyond it the characters with the
  property White_Space.
\<close>

definition IsSpace :: "rune \<Rightarrow> bool" where
  "IsSpace r =
     (r = 0x09 \<or> r = 0x0A \<or> r = 0x0B \<or> r = 0x0C \<or> r = 0x0D \<or> r = 0x20
      \<or> r = 0x85 \<or> r = 0xA0 \<or> r = 0x1680 \<or> (0x2000 \<le> r \<and> r \<le> 0x200A)
      \<or> r = 0x2028 \<or> r = 0x2029 \<or> r = 0x202F \<or> r = 0x205F \<or> r = 0x3000)"

text \<open>\<^verbatim>\<open>unicode.IsControl\<close>: the category Cc, which lies within Latin-1.\<close>

definition IsControl :: "rune \<Rightarrow> bool" where
  "IsControl r = (r \<le> 0x1F \<or> (0x7F \<le> r \<and> r \<le> 0x9F))"

text \<open>
  \<^verbatim>\<open>unicode.IsLetter\<close>: within Latin-1 the letters are listed; beyond Latin-1 the
  function consults the table of the category L of the Go distribution, which is taken
  as the parameter \<open>letters\<close>.
\<close>

definition IsLetter :: "(rune \<Rightarrow> bool) \<Rightarrow> rune \<Rightarrow> bool" where
  "IsLetter letters r =
     (if r \<le> 0xFF
      then (0x41 \<le> r \<and> r \<le> 0x5A) \<or> (0x61 \<le> r \<and> r \<le> 0x7A)
           \<or> r = 0xAA \<or> r = 0xB5 \<or> r = 0xBA
           \<or> (0xC0 \<le> r \<and> r \<le> 0xD6) \<or> (0xD8 \<le> r \<and> r \<le> 0xF6) \<or> 0xF8 \<le> r
      else letters r)"

subsection \<open>Package strings, scanning\<close>

text \<open>
  \<^verbatim>\<open>strings.ContainsRune(s, r)\<close>: whether \<open>r\<close> is among the runes of \<open>s\<close>.
\<close>

definition ContainsRune :: "string \<Rightarrow> rune \<Rightarrow> bool" where
  "ContainsRune s r = (r \<in> set (ToRunes s))"

text \<open>\<^verbatim>\<open>strings.Contains(s, sub)\<close> for a one-byte \<open>sub\<close>.\<close>

definition ContainsByte :: "string \<Rightarrow> char \<Rightarrow> bool" where
  "ContainsByte s c = (c \<in> set s)"

text \<open>
  \<^verbatim>\<open>strings.Index(s, sub)\<close> and \<^verbatim>\<open>strings.LastIndex(s, sub)\<close> for a one-byte \<open>sub\<close>:
  the byte offset of the first or last occurrence, or -1.
\<close>

fun IndexByte :: "string \<Rightarrow> char \<Rightarrow> int" where
  "IndexByte [] c = -1"
| "IndexByte (x # s) c =
     (if x = c then 0 else (let i = IndexByte s c in if i = -1 then -1 else i + 1))"

definition LastIndexByte :: "string \<Rightarrow> char \<Rightarrow> int" where
  "LastIndexByte s c =
     (let i = IndexByte (rev s) c in if i = -1 then -1 else int (length s) - 1 - i)"

text \<open>
  \<^verbatim>\<open>strings.Split(s, sep)\<close> for a one-byte separator: the pieces between the
  separators, one piece more than there are separators.
\<close>

fun splitLoop :: "char \<Rightarrow> string \<Rightarrow> string \<Rightarrow> string list" where
  "splitLoop sep [] cur = [cur]"
| "splitLoop sep (c # s) cur =
     (if c = sep then cur # splitLoop sep s [] else splitLoop sep s (cur @ [c]))"

definition SplitByte :: "string \<Rightarrow> char \<Rightarrow> string list" where
  "SplitByte s sep = splitLoop sep s []"

text \<open>
  \<^verbatim>\<open>strings.Fields(s)\<close>: the maximal runs of bytes whose runes are not white space
  in the sense of \<^verbatim>\<open>unicode.IsSpace\<close>.
\<close>

fun fieldsLoop :: "string \<Rightarrow> string \<Rightarrow> string list" where
  "fieldsLoop [] cur = (if cur = [] then [] else [cur])"
| "fieldsLoop (c # s) cur =
     (case DecodeRuneInString (c # s) of (r, w) \<Rightarrow>
        if IsSpace r
        then (if cur = [] then [] else [cur]) @ fieldsLoop (drop (w - 1) s) []
        else fieldsLoop (drop (w - 1) s) (cur @ c # take (w - 1) s))"

definition Fields :: "string \<Rightarrow> string list" where
  "Fields s = fieldsLoop s []"

section \<open>The quote engine (package editor)\<close>

definition QuoteStops :: string where
  "QuoteStops = [CHR ''<'', CHR 0x22, CHR 0x27, CHR ''-'']"

definition MaxQuoteLen :: nat where
  "MaxQuoteLen = 40"

text \<open>\<^verbatim>\<open>func IsQuoteChar(char rune) bool\<close>\<close>

definition IsQuoteChar :: "rune \<Rightarrow> bool" where
  "IsQuoteChar char = (char = 0x3E)"

text \<open>
  The loops of the form \<^verbatim>\<open>for i < len(runes) && cond(runes[i]) { i++ }\<close>: the index
  at which such a loop stops.
\<close>

function skipWhile :: "(rune \<Rightarrow> bool) \<Rightarrow> rune list \<Rightarrow> nat \<Rightarrow> nat" where
  "skipWhile cond runes i =
     (if i < length runes \<and> cond (runes ! i) then skipWhile cond runes (i + 1) else i)"
  by pat_completeness auto
termination
  by (relation "measure (\<lambda>(cond, runes, i). length runes - i)") auto

text \<open>
  The scan loop of \<^verbatim>\<open>IsQuoteBasic\<close> together with the return statement that follows
  it: the loop returns true at a quote character and breaks at a control character, a
  stop character or white space.
\<close>

function scanQuote :: "rune list \<Rightarrow> nat \<Rightarrow> nat \<Rightarrow> bool" where
  "scanQuote runes endPtr ptr =
     (if ptr < length runes \<and> ptr < endPtr
      then (if IsQuoteChar (runes ! ptr) then True
            else if IsControl (runes ! ptr) \<or> ContainsRune QuoteStops (runes ! ptr)
                    \<or> IsSpace (runes ! ptr)
              then ptr < endPtr \<and> ptr < length runes \<and> IsQuoteChar (runes ! ptr)
            else scanQuote runes endPtr (ptr + 1))
      else ptr < endPtr \<and> ptr < length runes \<and> IsQuoteChar (runes ! ptr))"
  by pat_completeness auto
termination
  by (relation "measure (\<lambda>(runes, endPtr, ptr). length runes - ptr)") auto

text \<open>\<^verbatim>\<open>func IsQuoteBasic(line string) bool\<close>\<close>

definition IsQuoteBasic :: "string \<Rightarrow> bool" where
  "IsQuoteBasic line =
     (if length line = 0 then False
      else
        let runes = ToRunes line;
            endPtr = (if length runes > 11 then 11 else length runes);
            ptr = skipWhile (\<lambda>r. IsSpace r \<or> r = 0x0A) runes 0
        in if ptr \<ge> length runes \<or> ptr \<ge> endPtr then False
           else if IsQuoteChar (runes ! ptr) then True
           else scanQuote runes endPtr ptr)"

text \<open>
  The loop of \<^verbatim>\<open>checkPreviousLinesContext\<close>, which walks the previous lines from the
  last one to the first: the second argument is the number of lines still to visit
  (the loop index is one less) and \<open>paragraph\<close> tells whether the pointer of that name
  is set.
\<close>

fun contextLoop :: "string list \<Rightarrow> nat \<Rightarrow> bool \<Rightarrow> bool" where
  "contextLoop prevLines 0 paragraph = True"
| "contextLoop prevLines (Suc i) paragraph =
     (let line = prevLines ! i in
      if IsQuoteBasic line then True
      else if length line = 0 \<or> line ! 0 = LF \<or> line ! 0 = CR
        then (if paragraph then True else contextLoop prevLines i True)
      else if length line > 0 \<and> line ! 0 = SOH then True
      else
        let lastLT = LastIndexByte line (CHR ''<'') in
        if lastLT \<noteq> -1
        then (if IndexByte (drop (nat lastLT) line) (CHR ''>'') \<noteq> -1 then True
              else if list_ex (\<lambda>l. ContainsByte l (CHR ''>'')) (drop (i + 1) prevLines)
                then True
              else False)
        else contextLoop prevLines i paragraph)"

text \<open>\<^verbatim>\<open>func checkPreviousLinesContext(prevLines []string) bool\<close>\<close>

definition checkPreviousLinesContext :: "string list \<Rightarrow> bool" where
  "checkPreviousLinesContext prevLines =
     (if length prevLines = 0 then True
      else contextLoop prevLines (length prevLines) False)"

text \<open>
  The search loop of \<^verbatim>\<open>IsQuoteEnhanced\<close> for the first \<^verbatim>\<open>'>'\<close>: it either makes the
  function return true at once, or ends with the values of \<open>found\<close> and \<open>pos\<close>.
\<close>

datatype search = ReturnTrue | Searched bool nat

function findQuote :: "rune list \<Rightarrow> nat \<Rightarrow> search" where
  "findQuote runes pos =
     (if pos < length runes
      then (if runes ! pos = 0x3E then Searched True (pos + 1)
            else if ContainsRune QuoteStops (runes ! pos) \<or> runes ! pos = 0x0D
                    \<or> runes ! pos = 0x0A
              then ReturnTrue
            else findQuote runes (pos + 1))
      else Searched False pos)"
  by pat_completeness auto
termination
  by (relation "measure (\<lambda>(runes, pos). length runes - pos)") auto

text \<open>The loop that counts the letters at the indices from \<open>i\<close> up to \<open>stop\<close>.\<close>

function countAlpha :: "(rune \<Rightarrow> bool) \<Rightarrow> rune list \<Rightarrow> nat \<Rightarrow> int \<Rightarrow> int" where
  "countAlpha letters runes i stop =
     (if int i < stop
      then (if IsLetter letters (runes ! i) then 1 else 0)
           + countAlpha letters runes (i + 1) stop
      else 0)"
  by pat_completeness auto
termination
  by (relation "measure (\<lambda>(letters, runes, i, stop). nat (stop - int i))") auto

text \<open>\<^verbatim>\<open>func IsQuoteEnhanced(line string, prevLines []string) bool\<close>\<close>

definition IsQuoteEnhanced :: "(rune \<Rightarrow> bool) \<Rightarrow> string \<Rightarrow> string list \<Rightarrow> bool" where
  "IsQuoteEnhanced letters line prevLines =
     (if length line = 0 then False
      else
        let runes = ToRunes line;
            head = skipWhile IsSpace runes 0
        in if head \<ge> length runes then False
           else
             (case findQuote runes head of
                ReturnTrue \<Rightarrow> True
              | Searched found pos \<Rightarrow>
                  if \<not> found then False
                  else if pos < length runes \<and> IsQuoteBasic (FromRunes (drop pos runes))
                    then True
                  else
                    let alphaCount = countAlpha letters runes head (int pos - 1) in
                    if alphaCount < 4 \<and> alphaCount = int pos - 1 - int head then True
                    else checkPreviousLinesContext prevLines))"

text \<open>
  The loop of \<^verbatim>\<open>GetQuoteString\<close> that copies the runes before \<open>end\<close> into the
  builder, leaving out line feeds, while the builder holds fewer than
  \<^verbatim>\<open>MaxQuoteLen-1\<close> bytes.
\<close>

function buildQuote :: "rune list \<Rightarrow> nat \<Rightarrow> nat \<Rightarrow> string \<Rightarrow> string" where
  "buildQuote runes end i result =
     (if i < end \<and> length result < MaxQuoteLen - 1
      then buildQuote runes end (i + 1)
             (if runes ! i \<noteq> 0x0A then result @ EncodeRune (runes ! i) else result)
      else result)"
  by pat_completeness auto
termination
  by (relation "measure (\<lambda>(runes, end, i, result). end - i)") auto

text \<open>\<^verbatim>\<open>func GetQuoteString(line string) (string, int)\<close>\<close>

definition GetQuoteString :: "string \<Rightarrow> string \<times> nat" where
  "GetQuoteString line =
     (if \<not> IsQuoteBasic line then ([], 0)
      else
        let runes = ToRunes line;
            start0 = skipWhile (\<lambda>r. IsSpace r \<or> r = 0x0A) runes 0;
            start = skipWhile (\<lambda>r. \<not> IsQuoteChar r) runes start0
        in if start \<ge> length runes then ([], 0)
           else
             let end0 = skipWhile IsQuoteChar runes start;
                 end = (if end0 < length runes
                           \<and> (IsSpace (runes ! end0) \<or> runes ! end0 = 0x0A)
                        then end0 + 1 else end0);
                 quoteStr = buildQuote runes end 0 []
             in (quoteStr, length quoteStr))"

text \<open>\<^verbatim>\<open>func GetQuoteLevel(line string) int\<close>\<close>

definition GetQuoteLevel :: "string \<Rightarrow> nat" where
  "GetQuoteLevel line =
     (case GetQuoteString line of (quoteStr, _) \<Rightarrow>
        length (filter IsQuoteChar (ToRunes quoteStr)))"

text \<open>
  The loop of \<^verbatim>\<open>wrapTextContent\<close> over the words, with the lines finished so far
  and the line being filled, followed by the final append of a non-empty last line.
\<close>

fun fillLines :: "string list \<Rightarrow> int \<Rightarrow> string list \<Rightarrow> string \<Rightarrow> string list" where
  "fillLines [] maxWidth result currentLine =
     (if length currentLine > 0 then result @ [currentLine] else result)"
| "fillLines (word # words) maxWidth result currentLine =
     (if length currentLine > 0
         \<and> int (length currentLine) + 1 + int (length word) > maxWidth
      then fillLines words maxWidth (result @ [currentLine]) word
      else fillLines words maxWidth result
             ((if length currentLine > 0 then currentLine @ '' '' else currentLine) @ word))"

text \<open>\<^verbatim>\<open>func wrapTextContent(content string, maxWidth int) []string\<close>\<close>

definition wrapTextContent :: "string \<Rightarrow> int \<Rightarrow> string list" where
  "wrapTextContent content maxWidth =
     (if length content = 0 then [[]]
      else if int (length content) \<le> maxWidth then [content]
      else fillLines (Fields content) maxWidth [] [])"

text \<open>
  A slice expression \<^verbatim>\<open>line[lo:]\<close> with \<open>lo\<close> beyond the length of the string makes
  the Go runtime panic.
\<close>

datatype go_panic = SliceBoundsOutOfRange

text \<open>
  The loop of \<^verbatim>\<open>WordWrapQuoteAware\<close> over the input lines; \<open>lines\<close> is the result
  being built.
\<close>

fun wrapLines :: "string list \<Rightarrow> int \<Rightarrow> int \<Rightarrow> string list \<Rightarrow> go_panic + string list" where
  "wrapLines [] width quotemargin lines = Inr lines"
| "wrapLines (line # inputLines) width quotemargin lines =
     (if length line = 0 then wrapLines inputLines width quotemargin (lines @ [[]])
      else
        (case GetQuoteString line of (quoteStr, quoteLen) \<Rightarrow>
           let margin = (if quoteLen > 0 then quotemargin else width) in
           if int (length line) \<le> margin
           then wrapLines inputLines width quotemargin (lines @ [line])
           else
             let contentStart = quoteLen in
             if contentStart > length line then Inl SliceBoundsOutOfRange
             else
               let content = drop contentStart line;
                   wrappedContent = wrapTextContent content (margin - int quoteLen)
               in wrapLines inputLines width quotemargin
                    (lines @ map (\<lambda>wrappedLine. quoteStr @ wrappedLine) wrappedContent)))"

text \<open>
  \<^verbatim>\<open>func WordWrapQuoteAware(text string, width int, quotemargin int) (lines []string)\<close>
\<close>

definition WordWrapQuoteAware :: "string \<Rightarrow> int \<Rightarrow> int \<Rightarrow> go_panic + string list" where
  "WordWrapQuoteAware text width quotemargin =
     (if length text = 0 then Inr [[]]
      else wrapLines (SplitByte text LF) width quotemargin [])"

section \<open>The jnode database (package database)\<close>

text \<open>The rows of the tables, with the columns of \<^verbatim>\<open>models.go\<close>.\<close>

record Link =
  Link_ID :: int
  Link_StationName :: string
  Link_FtnAddress :: string
  Link_PktPassword :: string
  Link_Password :: string
  Link_Address :: string

record Echoarea =
  Echoarea_ID :: int
  Echoarea_Name :: string
  Echoarea_Description :: string
  Echoarea_WLevel :: int
  Echoarea_RLevel :: int
  Echoarea_Grp :: string

record Echomail =
  Echomail_ID :: int
  Echomail_EchoareaID :: int
  Echomail_FromName :: string
  Echomail_ToName :: string
  Echomail_FromFtnAddr :: string
  Echomail_Date :: int
  Echomail_Subject :: string
  Echomail_Message :: string
  Echomail_SeenBy :: string
  Echomail_Path :: string
  Echomail_MsgID :: string

record Netmail =
  Netmail_ID :: int
  Netmail_FromName :: string
  Netmail_ToName :: string
  Netmail_FromAddress :: string
  Netmail_ToAddress :: string
  Netmail_Subject :: string
  Netmail_Text :: string
  Netmail_Date :: int
  Netmail_RouteVia :: "int option"
  Netmail_Send :: bool
  Netmail_Attr :: int
  Netmail_LastModified :: int

record Subscription =
  Subscription_LinkID :: int
  Subscription_EchoareaID :: int

record EchomailAwaiting =
  EchomailAwaiting_LinkID :: int
  EchomailAwaiting_EchomailID :: int

record Route =
  Route_ID :: int
  Route_Nice :: int
  Route_FromName :: string
  Route_ToName :: string
  Route_FromAddress :: string
  Route_ToAddress :: string
  Route_Subject :: string
  Route_RouteVia :: int

text \<open>
  The database behind a \<^verbatim>\<open>*gorm.DB\<close> handle: its tables, the counters of the
  auto-increment keys of the two tables the program inserts into (the greatest id the
  table has given out: an id is not given out again after its row is deleted), and
  whether the server answers. When it does not, every statement ends with an error of
  the driver. Comparison in a \<^verbatim>\<open>WHERE\<close> clause is equality of strings.
\<close>

record DB =
  links :: "Link list"
  routing :: "Route list"
  echomail :: "Echomail list"
  netmail :: "Netmail list"
  subscription :: "Subscription list"
  echomailawait :: "EchomailAwaiting list"
  echomailSeq :: int
  netmailSeq :: int
  reachable :: bool

text \<open>
  Go errors: \<^verbatim>\<open>gorm.ErrRecordNotFound\<close>, any other error of the driver, and the
  errors made by \<^verbatim>\<open>fmt.Errorf\<close> with their text and the error they wrap.
\<close>

datatype error = ErrRecordNotFound | ErrDriver | Errorf string "error option"

text \<open>
  \<^verbatim>\<open>First(&row)\<close> on the rows a query selects, already filtered, ordered and cut
  by its offset: the first row, or \<^verbatim>\<open>ErrRecordNotFound\<close>.
\<close>

definition gormFirst :: "DB \<Rightarrow> 'r list \<Rightarrow> error + 'r" where
  "gormFirst d rows =
     (if \<not> reachable d then Inl ErrDriver
      else case rows of [] \<Rightarrow> Inl ErrRecordNotFound | r # _ \<Rightarrow> Inr r)"

text \<open>\<^verbatim>\<open>Find(&rows)\<close> and \<^verbatim>\<open>Count(&count)\<close> on the rows a query selects.\<close>

definition gormFind :: "DB \<Rightarrow> 'r list \<Rightarrow> error + 'r list" where
  "gormFind d rows = (if \<not> reachable d then Inl ErrDriver else Inr rows)"

definition gormCount :: "DB \<Rightarrow> 'r list \<Rightarrow> error + int" where
  "gormCount d rows = (if \<not> reachable d then Inl ErrDriver else Inr (int (length rows)))"

text \<open>
  The id an auto-increment primary key gives to the next row: one more than the
  greatest id given out so far, \<open>seq\<close>, and greater than the ids present in the table.
\<close>

definition nextID :: "int \<Rightarrow> int list \<Rightarrow> int" where
  "nextID seq ids = max seq (fold max ids 0) + 1"

text \<open>\<^verbatim>\<open>type AreaCount struct\<close>\<close>

record AreaCount =
  AreaCount_EchoareaID :: int
  AreaCount_Count :: int

text \<open>
  \<^verbatim>\<open>func GetAllEchoareaCounts() (map[int64]int64, error)\<close>, on the global handle
  \<^verbatim>\<open>database.DB\<close>, which may be nil. The query groups the echomail rows by area.
\<close>

definition GetAllEchoareaCounts :: "DB option \<Rightarrow> error + (int \<rightharpoonup> int)" where
  "GetAllEchoareaCounts handle =
     (case handle of
        None \<Rightarrow> Inl (Errorf ''database connection is nil'' None)
      | Some d \<Rightarrow>
          (case gormFind d
                  (map (\<lambda>i. \<lparr>AreaCount_EchoareaID = i,
                              AreaCount_Count =
                                int (length (filter (\<lambda>e. Echomail_EchoareaID e = i)
                                               (echomail d)))\<rparr>)
                     (remdups (map Echomail_EchoareaID (echomail d)))) of
             Inl err \<Rightarrow> Inl (Errorf ''failed to get echoarea counts: '' (Some err))
           | Inr counts \<Rightarrow>
               Inr (fold (\<lambda>count result.
                            result(AreaCount_EchoareaID count \<mapsto> AreaCount_Count count))
                      counts Map.empty)))"

text \<open>\<^verbatim>\<open>func GetNetmailCount() (int64, error)\<close>\<close>

definition GetNetmailCount :: "DB option \<Rightarrow> error + int" where
  "GetNetmailCount handle =
     (case handle of
        None \<Rightarrow> Inl (Errorf ''database connection is nil'' None)
      | Some d \<Rightarrow>
          (case gormCount d (netmail d) of
             Inl err \<Rightarrow> Inl (Errorf ''failed to get netmail count: '' (Some err))
           | Inr count \<Rightarrow> Inr count))"

text \<open>
  \<^verbatim>\<open>time.Time\<close> is modelled by its nanoseconds since the Unix epoch.
  \<^verbatim>\<open>func (dh DateHelper) ToUnixTime(t time.Time) int64\<close> and
  \<^verbatim>\<open>func (dh DateHelper) FromUnixTime(timestamp int64) time.Time\<close>
\<close>

type_synonym Time = int

definition ToUnixTime :: "Time \<Rightarrow> int" where
  "ToUnixTime t = t div 1000000"

definition FromUnixTime :: "int \<Rightarrow> Time" where
  "FromUnixTime timestamp =
     (if timestamp > 4102444800
      then (timestamp div 1000) * 1000000000 + (timestamp mod 1000) * 1000000
      else timestamp * 1000000000)"

section \<open>The last-read store (package database)\<close>

text \<open>
  The rows of the table \<^verbatim>\<open>lastread\<close> and the database behind the handle
  \<^verbatim>\<open>LastReadDB\<close>, which is nil while the store is not enabled; \<open>lastreadSeq\<close> is
  the counter of the key, which the table declares \<^verbatim>\<open>AUTOINCREMENT\<close>.
\<close>

record LastRead =
  LastRead_ID :: int
  LastRead_Username :: string
  LastRead_AreaName :: string
  LastRead_LastReadMsg :: u32
  LastRead_HighReadMsg :: u32
  LastRead_LastUpdated :: int

record LastReadStore =
  lastread :: "LastRead list"
  lastreadSeq :: int
  lastreadReachable :: bool

text \<open>\<^verbatim>\<open>func IsLastReadEnabled() bool\<close>\<close>

definition IsLastReadEnabled :: "LastReadStore option \<Rightarrow> bool" where
  "IsLastReadEnabled handle = (handle \<noteq> None)"

text \<open>\<^verbatim>\<open>func GetLastRead(username, areaName string) (uint32, error)\<close>\<close>

definition GetLastRead :: "LastReadStore option \<Rightarrow> string \<Rightarrow> string \<Rightarrow> error + u32" where
  "GetLastRead handle username aName =
     (case handle of
        None \<Rightarrow> Inl (Errorf ''lastread database not initialized'' None)
      | Some st \<Rightarrow>
          if \<not> lastreadReachable st
          then Inl (Errorf (''failed to get lastread for user '' @ username @ '' in area ''
                            @ aName @ '': '') (Some ErrDriver))
          else (case sort_key LastRead_ID
                       (filter (\<lambda>r. LastRead_Username r = username
                                     \<and> LastRead_AreaName r = aName) (lastread st)) of
                  [] \<Rightarrow> Inr 0
                | lastRead # _ \<Rightarrow> Inr (LastRead_LastReadMsg lastRead)))"

text \<open>
  \<^verbatim>\<open>func SetLastRead(username, areaName string, position uint32) error\<close>: the
  statement inserts a row for the user and the area, or updates the one that exists,
  keeping the greater high-water mark; \<open>now\<close> is what \<^verbatim>\<open>time.Now().Unix()\<close> returns.
\<close>

definition SetLastRead ::
  "LastReadStore option \<Rightarrow> int \<Rightarrow> string \<Rightarrow> string \<Rightarrow> u32 \<Rightarrow> error option \<times> LastReadStore option" where
  "SetLastRead handle now username aName position =
     (case handle of
        None \<Rightarrow> (Some (Errorf ''lastread database not initialized'' None), None)
      | Some st \<Rightarrow>
          if \<not> lastreadReachable st
          then (Some (Errorf (''failed to set lastread for user '' @ username @ '' in area ''
                               @ aName @ '': '') (Some ErrDriver)), Some st)
          else if list_ex (\<lambda>r. LastRead_Username r = username \<and> LastRead_AreaName r = aName)
                    (lastread st)
            then (None,
                  Some (st\<lparr>lastread :=
                           map (\<lambda>r. if LastRead_Username r = username \<and> LastRead_AreaName r = aName
                                     then r\<lparr>LastRead_LastReadMsg := position,
                                            LastRead_HighReadMsg :=
                                              (if position > LastRead_HighReadMsg r then position
                                               else LastRead_HighReadMsg r),
                                            LastRead_LastUpdated := now\<rparr>
                                     else r)
                             (lastread st)\<rparr>))
          else (None,
                Some (st\<lparr>lastread := lastread st @
                         [\<lparr>LastRead_ID = nextID (lastreadSeq st) (map LastRead_ID (lastread st)),
                           LastRead_Username = username,
                           LastRead_AreaName = aName,
                           LastRead_LastReadMsg = position,
                           LastRead_HighReadMsg = position,
                           LastRead_LastUpdated = now\<rparr>],
                        lastreadSeq := nextID (lastreadSeq st) (map LastRead_ID (lastread st))\<rparr>)))"

section \<open>Addresses and messages (packages types and msgapi)\<close>

record FidoAddr =
  zone :: u16
  net :: u16
  node :: u16
  point :: u16

text \<open>\<^verbatim>\<open>strconv.Itoa\<close> on a number that is not negative.\<close>

function Itoa :: "nat \<Rightarrow> string" where
  "Itoa n =
     (if n < 10 then [''0123456789'' ! n]
      else Itoa (n div 10) @ [''0123456789'' ! (n mod 10)])"
  by pat_completeness auto
termination
  by (relation "measure (\<lambda>n. n)") auto

text \<open>
  Modelled from the spec: the method \<^verbatim>\<open>String\<close> of \<^verbatim>\<open>types.FidoAddr\<close>, whose source
  is not part of the files at hand. The spec has it serialize to \<^verbatim>\<open>Z:N/F.P\<close>, the
  point segment omitted when the point is zero.
\<close>

definition FidoAddr_String :: "FidoAddr \<Rightarrow> string" where
  "FidoAddr_String a =
     Itoa (unat (zone a)) @ '':'' @ Itoa (unat (net a)) @ ''/'' @ Itoa (unat (node a))
     @ (if point a = 0 then [] else ''.'' @ Itoa (unat (point a)))"

text \<open>
  Modelled from the spec: \<^verbatim>\<open>types.AddrFromNum\<close>, whose source is not part of the files
  at hand; it builds the address from its four numbers.
\<close>

definition AddrFromNum :: "u16 \<Rightarrow> u16 \<Rightarrow> u16 \<Rightarrow> u16 \<Rightarrow> FidoAddr" where
  "AddrFromNum z n f p = \<lparr>zone = z, net = n, node = f, point = p\<rparr>"

datatype EchoAreaType =
  EchoAreaTypeNetmail | EchoAreaTypeBad | EchoAreaTypeDupe
  | EchoAreaTypeEcho | EchoAreaTypeLocal | EchoAreaTypeNone

text \<open>
  \<^verbatim>\<open>type Message struct\<close>, as far as the SQL area reads and writes it. The kludges
  are a Go map; they are modelled by an association list, whose order stands for the
  order in which a \<^verbatim>\<open>range\<close> loop visits the entries (Go leaves that order open).
  \<^verbatim>\<open>FromAddr\<close> and \<^verbatim>\<open>ToAddr\<close> are pointers that are not nil.
\<close>

record Message =
  Area :: string
  MsgNum :: u32
  MaxNum :: u32
  From :: string
  To :: string
  FromAddr :: FidoAddr
  ToAddr :: FidoAddr
  Subject :: string
  Body :: string
  DateWritten :: Time
  DateArrived :: Time
  Attrs :: "string list"
  Kludges :: "(string \<times> string) list"
  Corrupted :: bool

record MessageListItem =
  Item_MsgNum :: u32
  Item_From :: string
  Item_To :: string
  Item_Subject :: string
  Item_DateWritten :: Time

text \<open>\<^verbatim>\<open>type SQLArea struct\<close>; the handle \<^verbatim>\<open>db\<close> is passed to the methods.\<close>

record SQLArea =
  areaID :: int
  areaName :: string
  areaType :: EchoAreaType
  chrs :: string
  messageListCache :: "MessageListItem list"
  messageListValid :: bool
  lastReadPosition :: u32

text \<open>
  The functions of the repository that the SQL area calls and whose source is not part
  of the files at hand are parameters: \<^verbatim>\<open>Message.MakeBody\<close> (which sees the area
  through \<^verbatim>\<open>AreaObject\<close>), \<^verbatim>\<open>Message.ParseRawNoDecoding\<close> (whose error is only
  logged), \<^verbatim>\<open>utils.EncodeCharmap\<close> and \<^verbatim>\<open>types.AddrFromString\<close> (nil when the
  string is not an address).
\<close>

record Helpers =
  MakeBody :: "SQLArea \<Rightarrow> Message \<Rightarrow> Message"
  ParseRawNoDecoding :: "Message \<Rightarrow> Message"
  EncodeCharmap :: "string \<Rightarrow> string \<Rightarrow> string"
  AddrFromString :: "string \<Rightarrow> FidoAddr option"

text \<open>The settings read from \<^verbatim>\<open>config.Config\<close>.\<close>

record Config =
  Username :: string
  Chrs_Default :: string
  Chrs_JnodeDefault :: string

section \<open>The message-count cache (package msgapi)\<close>

text \<open>
  The package variables \<^verbatim>\<open>messageCountCache\<close> (a map that may be nil),
  \<^verbatim>\<open>netmailCountCache\<close> and \<^verbatim>\<open>countCacheValid\<close>.
\<close>

record CountCache =
  messageCountCache :: "(int \<rightharpoonup> int) option"
  netmailCountCache :: int
  countCacheValid :: bool

text \<open>\<^verbatim>\<open>func RefreshMessageCounts() error\<close>\<close>

definition RefreshMessageCounts :: "DB option \<Rightarrow> CountCache \<Rightarrow> error option \<times> CountCache" where
  "RefreshMessageCounts handle c =
     (case GetAllEchoareaCounts handle of
        Inl err \<Rightarrow> (Some (Errorf ''failed to get echoarea counts: '' (Some err)), c)
      | Inr counts \<Rightarrow>
          (case GetNetmailCount handle of
             Inl err \<Rightarrow> (Some (Errorf ''failed to get netmail count: '' (Some err)), c)
           | Inr netmailCount \<Rightarrow>
               (None, \<lparr>messageCountCache = Some counts,
                       netmailCountCache = netmailCount,
                       countCacheValid = True\<rparr>)))"

text \<open>\<^verbatim>\<open>func InvalidateMessageCounts()\<close>\<close>

definition InvalidateMessageCounts :: "CountCache \<Rightarrow> CountCache" where
  "InvalidateMessageCounts c =
     \<lparr>messageCountCache = None, netmailCountCache = 0, countCacheValid = False\<rparr>"

text \<open>
  \<^verbatim>\<open>func IncrementMessageCount(areaID int64, isNetmail bool)\<close>; a key that is not in
  the map reads as 0.
\<close>

definition IncrementMessageCount :: "int \<Rightarrow> bool \<Rightarrow> CountCache \<Rightarrow> CountCache" where
  "IncrementMessageCount aID isNetmail c =
     (if \<not> countCacheValid c then c
      else if isNetmail then c\<lparr>netmailCountCache := netmailCountCache c + 1\<rparr>
      else
        let m = (case messageCountCache c of None \<Rightarrow> Map.empty | Some m \<Rightarrow> m)
        in c\<lparr>messageCountCache :=
               Some (m(aID \<mapsto> (case m aID of None \<Rightarrow> 0 | Some n \<Rightarrow> n) + 1))\<rparr>)"

text \<open>
  What the cache holds: the entries of the map (none when the map is nil), and the value
  that a read \<^verbatim>\<open>messageCountCache[k]\<close> yields (0 for a key that is absent).
\<close>

definition cacheEntries :: "CountCache \<Rightarrow> (int \<rightharpoonup> int)" where
  "cacheEntries c = (case messageCountCache c of None \<Rightarrow> Map.empty | Some m \<Rightarrow> m)"

definition cachedCount :: "CountCache \<Rightarrow> int \<Rightarrow> int" where
  "cachedCount c k = (case cacheEntries c k of None \<Rightarrow> 0 | Some n \<Rightarrow> n)"

section \<open>The SQL area (package msgapi)\<close>

text \<open>\<^verbatim>\<open>func mapJnodeAreaType(areaName string) EchoAreaType\<close>\<close>

definition mapJnodeAreaType :: "string \<Rightarrow> EchoAreaType" where
  "mapJnodeAreaType aName =
     (if aName = ''Netmail'' then EchoAreaTypeNetmail
      else if aName = ''BadMail'' \<or> aName = ''Bad'' then EchoAreaTypeBad
      else if aName = ''DupeMail'' \<or> aName = ''Dupe'' then EchoAreaTypeDupe
      else EchoAreaTypeEcho)"

text \<open>
  \<^verbatim>\<open>func NewSQLArea(db *gorm.DB, echoarea database.Echoarea) *SQLArea\<close> and
  \<^verbatim>\<open>func NewSQLNetmailArea(db *gorm.DB) *SQLArea\<close>
\<close>

definition NewSQLArea :: "Echoarea \<Rightarrow> SQLArea" where
  "NewSQLArea echoarea =
     \<lparr>areaID = Echoarea_ID echoarea, areaName = Echoarea_Name echoarea,
      areaType = mapJnodeAreaType (Echoarea_Name echoarea), chrs = [],
      messageListCache = [], messageListValid = False, lastReadPosition = 0\<rparr>"

definition NewSQLNetmailArea :: SQLArea where
  "NewSQLNetmailArea =
     \<lparr>areaID = 0, areaName = ''Netmail'', areaType = EchoAreaTypeNetmail, chrs = [],
      messageListCache = [], messageListValid = False, lastReadPosition = 0\<rparr>"

text \<open>\<^verbatim>\<open>func (a *SQLArea) Init()\<close>\<close>

definition Init :: "SQLArea \<Rightarrow> SQLArea" where
  "Init a = a\<lparr>lastReadPosition := 0, messageListValid := False\<rparr>"

text \<open>\<^verbatim>\<open>func (a *SQLArea) GetStorageLineEnding() string\<close>\<close>

definition GetStorageLineEnding :: string where
  "GetStorageLineEnding = [LF]"

text \<open>
  \<^verbatim>\<open>func (a *SQLArea) NormalizeForStorage(body string) string\<close>: the receiver is not
  used by the body.
\<close>

definition NormalizeForStorage :: "string \<Rightarrow> string" where
  "NormalizeForStorage body =
     (let result = ReplaceAllByte body CR LF
      in TrimRightByte result LF @ [LF])"

text \<open>\<^verbatim>\<open>func (a *SQLArea) NormalizeFromStorage(body string) string\<close>\<close>

definition NormalizeFromStorage :: "string \<Rightarrow> string" where
  "NormalizeFromStorage body = ReplaceAllByte body LF CR"

text \<open>\<^verbatim>\<open>func (a *SQLArea) GetCount() uint32\<close>\<close>

definition GetCount :: "CountCache \<Rightarrow> DB \<Rightarrow> SQLArea \<Rightarrow> u32" where
  "GetCount c d a =
     (if countCacheValid c
      then (if areaType a = EchoAreaTypeNetmail then word_of_int (netmailCountCache c)
            else (case (case messageCountCache c of None \<Rightarrow> None | Some m \<Rightarrow> m (areaID a)) of
                    Some count \<Rightarrow> word_of_int count
                  | None \<Rightarrow> 0))
      else if areaType a = EchoAreaTypeNetmail
        then (case gormCount d (netmail d) of
                Inl err \<Rightarrow> 0
              | Inr count \<Rightarrow> word_of_int count)
      else (case gormCount d (filter (\<lambda>e. Echomail_EchoareaID e = areaID a) (echomail d)) of
              Inl err \<Rightarrow> 0
            | Inr count \<Rightarrow> word_of_int count))"

text \<open>\<^verbatim>\<open>func (a *SQLArea) GetLast() uint32\<close>\<close>

definition GetLast :: "Config \<Rightarrow> LastReadStore option \<Rightarrow> SQLArea \<Rightarrow> u32" where
  "GetLast cfg handle a =
     (if IsLastReadEnabled handle
      then (case GetLastRead handle (Username cfg) (areaName a) of
              Inl err \<Rightarrow> lastReadPosition a
            | Inr position \<Rightarrow> position)
      else lastReadPosition a)"

text \<open>
  \<^verbatim>\<open>func (a *SQLArea) SetLast(position uint32)\<close>: the area and the last-read store
  afterwards; an error of the store is only logged.
\<close>

definition SetLast ::
  "Config \<Rightarrow> int \<Rightarrow> LastReadStore option \<Rightarrow> SQLArea \<Rightarrow> u32 \<Rightarrow> SQLArea \<times> LastReadStore option" where
  "SetLast cfg now handle a position =
     (let a = a\<lparr>lastReadPosition := position\<rparr>
      in if IsLastReadEnabled handle
         then (a, snd (SetLastRead handle now (Username cfg) (areaName a) position))
         else (a, handle))"

text \<open>\<^verbatim>\<open>func (a *SQLArea) parseNetmailAttrs(attr int) []string\<close>\<close>

definition parseNetmailAttrs :: "int \<Rightarrow> string list" where
  "parseNetmailAttrs attr =
     (if attr AND 256 \<noteq> 0 then [''Loc''] else [])
     @ (if attr AND 1 \<noteq> 0 then [''Pvt''] else [])
     @ (if attr AND 2 \<noteq> 0 then [''Cra''] else [])
     @ (if attr AND 4 \<noteq> 0 then [''Rcv''] else [])
     @ (if attr AND 8 \<noteq> 0 then [''Snt''] else [])
     @ (if attr AND 16 \<noteq> 0 then [''Att''] else [])
     @ (if attr AND 32 \<noteq> 0 then [''Fwd''] else [])
     @ (if attr AND 128 \<noteq> 0 then [''K/s''] else [])
     @ (if attr AND 512 \<noteq> 0 then [''Hld''] else [])"

text \<open>\<^verbatim>\<open>func (a *SQLArea) convertAttrsToInt(attrs []string) int\<close>\<close>

definition convertAttrsToInt :: "string list \<Rightarrow> int" where
  "convertAttrsToInt attrs =
     fold (\<lambda>attr result.
             if attr = ''Loc'' then result OR 256
             else if attr = ''Pvt'' then result OR 1
             else if attr = ''Cra'' then result OR 2
             else if attr = ''Rcv'' then result OR 4
             else if attr = ''Snt'' then result OR 8
             else if attr = ''Att'' then result OR 16
             else if attr = ''Fwd'' then result OR 32
             else if attr = ''K/s'' then result OR 128
             else if attr = ''Hld'' then result OR 512
             else result)
       attrs 0"

text \<open>
  The charset conversion at the end of \<^verbatim>\<open>getEchomailMessage\<close> and
  \<^verbatim>\<open>getNetmailMessage\<close>: the display charset is the first word of the setting.
\<close>

definition toDisplayCharset :: "Helpers \<Rightarrow> Config \<Rightarrow> Message \<Rightarrow> Message" where
  "toDisplayCharset h cfg msg =
     (let displayCharset = (case SplitByte (Chrs_Default cfg) (CHR '' '') of
                              [] \<Rightarrow> [] | x # _ \<Rightarrow> x)
      in if displayCharset \<noteq> ''UTF-8''
         then msg\<lparr>Body := EncodeCharmap h (Body msg) displayCharset,
                  From := EncodeCharmap h (From msg) displayCharset,
                  To := EncodeCharmap h (To msg) displayCharset,
                  Subject := EncodeCharmap h (Subject msg) displayCharset\<rparr>
         else msg)"

text \<open>
  \<^verbatim>\<open>func (a *SQLArea) getEchomailMessage(position uint32) (*Message, error)\<close>:
  the result is an error, or no message and no error, or a message.
\<close>

definition getEchomailMessage ::
  "Helpers \<Rightarrow> Config \<Rightarrow> CountCache \<Rightarrow> DB \<Rightarrow> SQLArea \<Rightarrow> u32 \<Rightarrow> error + Message option" where
  "getEchomailMessage h cfg c d a position =
     (case gormFirst d
             (drop (unat (position - 1))
                (sort_key Echomail_ID
                   (filter (\<lambda>e. Echomail_EchoareaID e = areaID a) (echomail d)))) of
        Inl err \<Rightarrow>
          if err = ErrRecordNotFound then Inr None
          else Inl (Errorf ''error retrieving echomail message: '' (Some err))
      | Inr row \<Rightarrow>
          let msg = \<lparr>Area = areaName a,
                     MsgNum = position,
                     MaxNum = GetCount c d a,
                     From = Echomail_FromName row,
                     To = Echomail_ToName row,
                     FromAddr = AddrFromNum 0 0 0 0,
                     ToAddr = AddrFromNum 0 0 0 0,
                     Subject = Echomail_Subject row,
                     Body = NormalizeFromStorage (Echomail_Message row),
                     DateWritten = FromUnixTime (Echomail_Date row),
                     DateArrived = FromUnixTime (Echomail_Date row),
                     Attrs = [],
                     Kludges = [],
                     Corrupted = False\<rparr>;
              msg = (case AddrFromString h (Echomail_FromFtnAddr row) of
                       Some addr \<Rightarrow> msg\<lparr>FromAddr := addr\<rparr>
                     | None \<Rightarrow> msg\<lparr>FromAddr := AddrFromNum 0 0 0 0, Corrupted := True\<rparr>);
              msg = msg\<lparr>ToAddr := AddrFromNum 0 0 0 0\<rparr>;
              msg = ParseRawNoDecoding h msg
          in Inr (Some (toDisplayCharset h cfg msg)))"

text \<open>\<^verbatim>\<open>func (a *SQLArea) getNetmailMessage(position uint32) (*Message, error)\<close>\<close>

definition getNetmailMessage ::
  "Helpers \<Rightarrow> Config \<Rightarrow> CountCache \<Rightarrow> DB \<Rightarrow> SQLArea \<Rightarrow> u32 \<Rightarrow> error + Message option" where
  "getNetmailMessage h cfg c d a position =
     (case gormFirst d (drop (unat (position - 1)) (sort_key Netmail_ID (netmail d))) of
        Inl err \<Rightarrow>
          if err = ErrRecordNotFound then Inr None
          else Inl (Errorf ''error retrieving netmail message: '' (Some err))
      | Inr row \<Rightarrow>
          let msg = \<lparr>Area = areaName a,
                     MsgNum = position,
                     MaxNum = GetCount c d a,
                     From = Netmail_FromName row,
                     To = Netmail_ToName row,
                     FromAddr = AddrFromNum 0 0 0 0,
                     ToAddr = AddrFromNum 0 0 0 0,
                     Subject = Netmail_Subject row,
                     Body = NormalizeFromStorage (Netmail_Text row),
                     DateWritten = FromUnixTime (Netmail_Date row),
                     DateArrived = FromUnixTime (Netmail_Date row),
                     Attrs = parseNetmailAttrs (Netmail_Attr row),
                     Kludges = [],
                     Corrupted = False\<rparr>;
              msg = (case AddrFromString h (Netmail_FromAddress row) of
                       Some addr \<Rightarrow> msg\<lparr>FromAddr := addr\<rparr>
                     | None \<Rightarrow> msg\<lparr>FromAddr := AddrFromNum 0 0 0 0, Corrupted := True\<rparr>);
              msg = (case AddrFromString h (Netmail_ToAddress row) of
                       Some addr \<Rightarrow> msg\<lparr>ToAddr := addr\<rparr>
                     | None \<Rightarrow> msg\<lparr>ToAddr := AddrFromNum 0 0 0 0, Corrupted := True\<rparr>);
              msg = ParseRawNoDecoding h msg
          in Inr (Some (toDisplayCharset h cfg msg)))"

text \<open>\<^verbatim>\<open>func (a *SQLArea) GetMsg(position uint32) (*Message, error)\<close>\<close>

definition GetMsg ::
  "Helpers \<Rightarrow> Config \<Rightarrow> CountCache \<Rightarrow> DB \<Rightarrow> SQLArea \<Rightarrow> u32 \<Rightarrow> error + Message option" where
  "GetMsg h cfg c d a position =
     (let position = (if position = 0 then 1 else position)
      in if areaType a = EchoAreaTypeNetmail then getNetmailMessage h cfg c d a position
         else getEchomailMessage h cfg c d a position)"

text \<open>
  \<^verbatim>\<open>func (a *SQLArea) loadEchomailList()\<close> and
  \<^verbatim>\<open>func (a *SQLArea) loadNetmailList()\<close>: the area afterwards; an error of the
  query is only logged.
\<close>

definition loadEchomailList :: "DB \<Rightarrow> SQLArea \<Rightarrow> SQLArea" where
  "loadEchomailList d a =
     (case gormFind d
             (sort_key Echomail_ID
                (filter (\<lambda>e. Echomail_EchoareaID e = areaID a) (echomail d))) of
        Inl err \<Rightarrow> a
      | Inr echomails \<Rightarrow>
          a\<lparr>messageListCache := messageListCache a @
               map (\<lambda>(i, e). \<lparr>Item_MsgNum = word_of_nat (i + 1),
                               Item_From = Echomail_FromName e,
                               Item_To = Echomail_ToName e,
                               Item_Subject = Echomail_Subject e,
                               Item_DateWritten = FromUnixTime (Echomail_Date e)\<rparr>)
                 (enumerate 0 echomails)\<rparr>)"

definition loadNetmailList :: "DB \<Rightarrow> SQLArea \<Rightarrow> SQLArea" where
  "loadNetmailList d a =
     (case gormFind d (sort_key Netmail_ID (netmail d)) of
        Inl err \<Rightarrow> a
      | Inr netmails \<Rightarrow>
          a\<lparr>messageListCache := messageListCache a @
               map (\<lambda>(i, n). \<lparr>Item_MsgNum = word_of_nat (i + 1),
                               Item_From = Netmail_FromName n,
                               Item_To = Netmail_ToName n,
                               Item_Subject = Netmail_Subject n,
                               Item_DateWritten = FromUnixTime (Netmail_Date n)\<rparr>)
                 (enumerate 0 netmails)\<rparr>)"

text \<open>
  \<^verbatim>\<open>func (a *SQLArea) GetMessages() *[]MessageListItem\<close>: the area afterwards; the
  list returned is its \<open>messageListCache\<close>.
\<close>

definition GetMessages :: "DB \<Rightarrow> SQLArea \<Rightarrow> SQLArea" where
  "GetMessages d a =
     (if messageListValid a then a
      else
        let a = a\<lparr>messageListCache := []\<rparr>;
            a = (if areaType a = EchoAreaTypeNetmail then loadNetmailList d a
                 else loadEchomailList d a)
        in a\<lparr>messageListValid := True\<rparr>)"

text \<open>
  The block of kludge lines that \<^verbatim>\<open>saveEchomailMessage\<close> and \<^verbatim>\<open>saveNetmailMessage\<close>
  build in their \<^verbatim>\<open>range\<close> loop over \<^verbatim>\<open>msg.Kludges\<close>.
\<close>

fun kludgeLines :: "(string \<times> string) list \<Rightarrow> string" where
  "kludgeLines [] = []"
| "kludgeLines ((kl, v) # kludges) =
     (if kl \<noteq> ''MSGID:'' then [SOH] @ kl @ '' '' @ v @ [CR] else []) @ kludgeLines kludges"

text \<open>A read \<^verbatim>\<open>m[key]\<close> of a map of strings: the empty string when the key is absent.\<close>

definition mapIndex :: "(string \<times> string) list \<Rightarrow> string \<Rightarrow> string" where
  "mapIndex m key = (case map_of m key of None \<Rightarrow> [] | Some v \<Rightarrow> v)"

text \<open>The override of the \<^verbatim>\<open>CHRS\<close> kludge at the start of both save functions.\<close>

definition overrideChrs :: "Config \<Rightarrow> Message \<Rightarrow> Message" where
  "overrideChrs cfg msg =
     (if Chrs_JnodeDefault cfg \<noteq> []
      then msg\<lparr>Kludges :=
                 AList.update ''CHRS:'' (Chrs_JnodeDefault cfg)
                   (AList.delete ''CHRS'' (AList.delete ''CHRS:'' (Kludges msg)))\<rparr>
      else msg)"

text \<open>
  \<^verbatim>\<open>func (a *SQLArea) queueEchomailForSubscribers(echomailID int64) error\<close>
\<close>

definition queueEchomailForSubscribers :: "DB \<Rightarrow> SQLArea \<Rightarrow> int \<Rightarrow> error option \<times> DB" where
  "queueEchomailForSubscribers d a echomailID =
     (case gormFind d (filter (\<lambda>s. Subscription_EchoareaID s = areaID a) (subscription d)) of
        Inl err \<Rightarrow>
          (Some (Errorf (''error getting subscriptions for area '' @ areaName a @ '': '')
                   (Some err)), d)
      | Inr subscriptions \<Rightarrow>
          let awaitingEntries =
                map (\<lambda>s. \<lparr>EchomailAwaiting_LinkID = Subscription_LinkID s,
                           EchomailAwaiting_EchomailID = echomailID\<rparr>) subscriptions
          in if length awaitingEntries > 0
             then (if \<not> reachable d
                   then (Some (Errorf ''error creating echomail awaiting entries: ''
                                 (Some ErrDriver)), d)
                   else (None, d\<lparr>echomailawait := echomailawait d @ awaitingEntries\<rparr>))
             else (None, d))"

text \<open>
  \<^verbatim>\<open>func (a *SQLArea) saveEchomailMessage(msg *Message) error\<close>: the error, and the
  area, the database and the count cache afterwards. \<^verbatim>\<open>Create(&echomail)\<close> gives the
  row the next id of the table.
\<close>

definition saveEchomailMessage ::
  "Helpers \<Rightarrow> Config \<Rightarrow> SQLArea \<Rightarrow> Message \<Rightarrow> DB \<Rightarrow> CountCache
    \<Rightarrow> error option \<times> SQLArea \<times> DB \<times> CountCache" where
  "saveEchomailMessage h cfg a msg0 d c =
     (let msg = MakeBody h a msg0;
          msg = overrideChrs cfg msg;
          messageText = kludgeLines (Kludges msg) @ Body msg;
          row = \<lparr>Echomail_ID = nextID (echomailSeq d) (map Echomail_ID (echomail d)),
                 Echomail_EchoareaID = areaID a,
                 Echomail_FromName = From msg,
                 Echomail_ToName = To msg,
                 Echomail_FromFtnAddr = FidoAddr_String (FromAddr msg),
                 Echomail_Date = ToUnixTime (DateWritten msg),
                 Echomail_Subject = Subject msg,
                 Echomail_Message = messageText,
                 Echomail_SeenBy = [],
                 Echomail_Path = [],
                 Echomail_MsgID = mapIndex (Kludges msg) ''MSGID:''\<rparr>
      in if \<not> reachable d
         then (Some (Errorf ''error saving echomail message: '' (Some ErrDriver)), a, d, c)
         else
           let d = d\<lparr>echomail := echomail d @ [row], echomailSeq := Echomail_ID row\<rparr>;
               d = snd (queueEchomailForSubscribers d a (Echomail_ID row));
               a = a\<lparr>messageListValid := False\<rparr>;
               c = IncrementMessageCount (areaID a) False c
           in (None, a, d, c))"

text \<open>
  The \<^verbatim>\<open>WHERE\<close> clause of the query on the routing table in \<^verbatim>\<open>findNetmailRoute\<close>:
  each field of the rule equals the field of the message or is \<^verbatim>\<open>'*'\<close>.
\<close>

definition routeMatches :: "Message \<Rightarrow> Route \<Rightarrow> bool" where
  "routeMatches msg r =
     ((Route_FromAddress r = FidoAddr_String (FromAddr msg) \<or> Route_FromAddress r = ''*'')
      \<and> (Route_ToAddress r = FidoAddr_String (ToAddr msg) \<or> Route_ToAddress r = ''*'')
      \<and> (Route_FromName r = From msg \<or> Route_FromName r = ''*'')
      \<and> (Route_ToName r = To msg \<or> Route_ToName r = ''*'')
      \<and> (Route_Subject r = Subject msg \<or> Route_Subject r = ''*''))"

text \<open>
  \<^verbatim>\<open>func (a *SQLArea) findNetmailRoute(msg *Message) (*int64, error)\<close>: the pointer
  (nil for a direct route) and the error. \<^verbatim>\<open>First\<close> orders the rows it selects by
  the primary key, after the order the query asks for.
\<close>

definition findNetmailRoute :: "DB \<Rightarrow> Message \<Rightarrow> int option \<times> error option" where
  "findNetmailRoute d msg =
     (let destAddr = FidoAddr_String (ToAddr msg);
          step3 =
            (case gormFirst d
                    (sort_key Route_Nice
                       (sort_key Route_ID (filter (routeMatches msg) (routing d)))) of
               Inr route \<Rightarrow> (Some (Route_RouteVia route), None)
             | Inl err \<Rightarrow>
                 (None, Some (Errorf (''no route found for netmail to '' @ destAddr) None)))
      in case gormFirst d
                (sort_key Link_ID (filter (\<lambda>l. Link_FtnAddress l = destAddr) (links d))) of
           Inr link \<Rightarrow> (None, None)
         | Inl err \<Rightarrow>
             if point (ToAddr msg) \<noteq> 0
             then
               (let addrWithoutPoint =
                      FidoAddr_String
                        (AddrFromNum (zone (ToAddr msg)) (net (ToAddr msg)) (node (ToAddr msg)) 0)
                in case gormFirst d
                          (sort_key Link_ID
                             (filter (\<lambda>l. Link_FtnAddress l = addrWithoutPoint) (links d))) of
                     Inr link \<Rightarrow> (Some (Link_ID link), None)
                   | Inl err \<Rightarrow> step3)
             else step3)"

text \<open>
  \<^verbatim>\<open>func (a *SQLArea) saveNetmailMessage(msg *Message) error\<close>; \<open>now\<close> is what
  \<^verbatim>\<open>time.Now()\<close> returns. \<^verbatim>\<open>Create(&netmail)\<close> gives the row the next id of the
  table and, for a field that holds the zero value of its type, writes the default of
  the column: 256 for \<^verbatim>\<open>attr\<close> (\<^verbatim>\<open>default:256\<close> in \<^verbatim>\<open>models.go\<close>), false for
  \<^verbatim>\<open>send\<close>.
\<close>

definition saveNetmailMessage ::
  "Helpers \<Rightarrow> Config \<Rightarrow> Time \<Rightarrow> SQLArea \<Rightarrow> Message \<Rightarrow> DB \<Rightarrow> CountCache
    \<Rightarrow> error option \<times> SQLArea \<times> DB \<times> CountCache" where
  "saveNetmailMessage h cfg now a msg0 d c =
     (let msg = MakeBody h a msg0;
          msg = overrideChrs cfg msg;
          messageText = kludgeLines (Kludges msg) @ Body msg;
          attr = convertAttrsToInt (Attrs msg);
          routeVia = fst (findNetmailRoute d msg);
          row = \<lparr>Netmail_ID = nextID (netmailSeq d) (map Netmail_ID (netmail d)),
                 Netmail_FromName = From msg,
                 Netmail_ToName = To msg,
                 Netmail_FromAddress = FidoAddr_String (FromAddr msg),
                 Netmail_ToAddress = FidoAddr_String (ToAddr msg),
                 Netmail_Subject = Subject msg,
                 Netmail_Text = messageText,
                 Netmail_Date = ToUnixTime (DateWritten msg),
                 Netmail_RouteVia = routeVia,
                 Netmail_Send = False,
                 Netmail_Attr = (if attr = 0 then 256 else attr),
                 Netmail_LastModified = ToUnixTime now\<rparr>
      in if \<not> reachable d
         then (Some (Errorf ''error saving netmail message: '' (Some ErrDriver)), a, d, c)
         else
           let d = d\<lparr>netmail := netmail d @ [row], netmailSeq := Netmail_ID row\<rparr>;
               a = a\<lparr>messageListValid := False\<rparr>;
               c = IncrementMessageCount 0 True c
           in (None, a, d, c))"

text \<open>\<^verbatim>\<open>func (a *SQLArea) SaveMsg(msg *Message) error\<close>\<close>

definition SaveMsg ::
  "Helpers \<Rightarrow> Config \<Rightarrow> Time \<Rightarrow> SQLArea \<Rightarrow> Message \<Rightarrow> DB \<Rightarrow> CountCache
    \<Rightarrow> error option \<times> SQLArea \<times> DB \<times> CountCache" where
  "SaveMsg h cfg now a msg d c =
     (if areaType a = EchoAreaTypeNetmail then saveNetmailMessage h cfg now a msg d c
      else saveEchomailMessage h cfg a msg d c)"

text \<open>
  \<^verbatim>\<open>func (a *SQLArea) deleteEchomailMessage(position uint32) error\<close>: the error, and
  the area and the database afterwards. \<^verbatim>\<open>Delete(&echomail)\<close> removes the row with
  the primary key of the row that was found; the id of that row stays given out.
\<close>

definition deleteEchomailMessage :: "SQLArea \<Rightarrow> DB \<Rightarrow> u32 \<Rightarrow> error option \<times> SQLArea \<times> DB" where
  "deleteEchomailMessage a d position =
     (case gormFirst d
             (drop (unat (position - 1))
                (sort_key Echomail_ID
                   (filter (\<lambda>e. Echomail_EchoareaID e = areaID a) (echomail d)))) of
        Inl err \<Rightarrow> (Some (Errorf ''error finding echomail message to delete: '' (Some err)), a, d)
      | Inr row \<Rightarrow>
          if \<not> reachable d
          then (Some (Errorf ''error deleting echomail message: '' (Some ErrDriver)), a, d)
          else (None, a\<lparr>messageListValid := False\<rparr>,
                d\<lparr>echomail := filter (\<lambda>e. Echomail_ID e \<noteq> Echomail_ID row) (echomail d),
                  echomailSeq := max (echomailSeq d) (Echomail_ID row)\<rparr>))"

text \<open>\<^verbatim>\<open>func (a *SQLArea) deleteNetmailMessage(position uint32) error\<close>\<close>

definition deleteNetmailMessage :: "SQLArea \<Rightarrow> DB \<Rightarrow> u32 \<Rightarrow> error option \<times> SQLArea \<times> DB" where
  "deleteNetmailMessage a d position =
     (case gormFirst d (drop (unat (position - 1)) (sort_key Netmail_ID (netmail d))) of
        Inl err \<Rightarrow> (Some (Errorf ''error finding netmail message to delete: '' (Some err)), a, d)
      | Inr row \<Rightarrow>
          if \<not> reachable d
          then (Some (Errorf ''error deleting netmail message: '' (Some ErrDriver)), a, d)
          else (None, a\<lparr>messageListValid := False\<rparr>,
                d\<lparr>netmail := filter (\<lambda>n. Netmail_ID n \<noteq> Netmail_ID row) (netmail d),
                  netmailSeq := max (netmailSeq d) (Netmail_ID row)\<rparr>))"

text \<open>\<^verbatim>\<open>func (a *SQLArea) DelMsg(position uint32) error\<close>\<close>

definition DelMsg :: "SQLArea \<Rightarrow> DB \<Rightarrow> u32 \<Rightarrow> error option \<times> SQLArea \<times> DB" where
  "DelMsg a d position =
     (let position = (if position = 0 then 1 else position)
      in if areaType a = EchoAreaTypeNetmail then deleteNetmailMessage a d position
         else deleteEchomailMessage a d position)"

text \<open>
  The rows that make up an area: all netmail for a netmail area, the echomail of the
  area otherwise. Their number is what a direct \<^verbatim>\<open>COUNT(*)\<close> returns.
\<close>

definition storedMessages :: "DB \<Rightarrow> SQLArea \<Rightarrow> nat" where
  "storedMessages d a =
     (if areaType a = EchoAreaTypeNetmail then length (netmail d)
      else length (filter (\<lambda>e. Echomail_EchoareaID e = areaID a) (echomail d)))"

section \<open>The area list (package msgapi)\<close>

text \<open>
  \<^verbatim>\<open>func AreaHasUnreadMessages(area *AreaPrimitive) bool\<close>. The area is a value of
  the interface \<^verbatim>\<open>AreaPrimitive\<close>; its methods \<^verbatim>\<open>GetCount\<close> and \<^verbatim>\<open>GetLast\<close> are
  passed as the functions \<open>getCount\<close> and \<open>getLast\<close>.
\<close>

definition AreaHasUnreadMessages :: "('a \<Rightarrow> u32) \<Rightarrow> ('a \<Rightarrow> u32) \<Rightarrow> 'a \<Rightarrow> bool" where
  "AreaHasUnreadMessages getCount getLast area = (getCount area - getLast area > 0)"

section \<open>Notions used in the statements\<close>

text \<open>
  The address of the boss node of the destination of a message, as step 2 of
  \<^verbatim>\<open>findNetmailRoute\<close> builds it, and whether the table of links has a row with a
  given address.
\<close>

definition bossAddress :: "Message \<Rightarrow> string" where
  "bossAddress msg =
     FidoAddr_String (AddrFromNum (zone (ToAddr msg)) (net (ToAddr msg)) (node (ToAddr msg)) 0)"

definition hasLink :: "DB \<Rightarrow> string \<Rightarrow> bool" where
  "hasLink d addr = list_ex (\<lambda>l. Link_FtnAddress l = addr) (links d)"

text \<open>
  When a routing rule applies to a message, in the words of the specification: the
  from-address, to-address, from-name, to-name and subject fields of the rule each
  equal the corresponding field of the message or are \<^verbatim>\<open>'*'\<close>.
\<close>

definition ruleApplies :: "Message \<Rightarrow> Route \<Rightarrow> bool" where
  "ruleApplies msg r =
     list_all (\<lambda>(field, v). field = v \<or> field = ''*'')
       [(Route_FromAddress r, FidoAddr_String (FromAddr msg)),
        (Route_ToAddress r, FidoAddr_String (ToAddr msg)),
        (Route_FromName r, From msg),
        (Route_ToName r, To msg),
        (Route_Subject r, Subject msg)]"

text \<open>The number of line feeds a string ends with.\<close>

definition trailingLFs :: "string \<Rightarrow> nat" where
  "trailingLFs s = length (takeWhile (\<lambda>c. c = LF) (rev s))"

text \<open>
  Whether a \<^verbatim>\<open>'>'\<close> appears in a sequence of runes before any control character,
  white space or stop character.
\<close>

fun quoteBeforeStop :: "rune list \<Rightarrow> bool" where
  "quoteBeforeStop [] = False"
| "quoteBeforeStop (r # rs) =
     (if r = 0x3E then True
      else if IsControl r \<or> IsSpace r \<or> ContainsRune QuoteStops r then False
      else quoteBeforeStop rs)"

text \<open>
  The window as the specification words it: the first 11 runes counted after the
  leading white space has been skipped.
\<close>

definition quoteInWindowAfterSkip :: "rune list \<Rightarrow> bool" where
  "quoteInWindowAfterSkip runes = quoteBeforeStop (take 11 (dropWhile IsSpace runes))"

text \<open>
  The window counted from the start of the line: the first 11 runes of the line, of
  which the leading white space is skipped.
\<close>

definition quoteInWindowFromStart :: "rune list \<Rightarrow> bool" where
  "quoteInWindowFromStart runes = quoteBeforeStop (dropWhile IsSpace (take 11 runes))"

section \<open>Example data\<close>

text \<open>
  A database without rows; one with a link to the node 2:5020/100 and two routing
  rules; one in which the area 7 holds one message, the first of two that have
  arrived, and one in which it holds both. The netmail area and the echo area 7 as the constructors
  and \<^verbatim>\<open>Init\<close> make them, and the echo area after \<^verbatim>\<open>SetLast(2)\<close> while the
  last-read store is not enabled. Helpers that leave their arguments as they are, a
  configuration with the display charset UTF-8 and no charset override, an invalid
  count cache, the count cache as \<^verbatim>\<open>RefreshMessageCounts\<close> loads it from the empty
  database, and a message to a given address with given kludges.
\<close>

definition emptyDB :: DB where
  "emptyDB = \<lparr>links = [], routing = [], echomail = [], netmail = [], subscription = [],
               echomailawait = [], echomailSeq = 0, netmailSeq = 0, reachable = True\<rparr>"

definition routedDB :: DB where
  "routedDB = emptyDB
     \<lparr>links := [\<lparr>Link_ID = 3, Link_StationName = ''Boss'', Link_FtnAddress = ''2:5020/100'',
                  Link_PktPassword = [], Link_Password = ''-'', Link_Address = ''-''\<rparr>],
      routing := [\<lparr>Route_ID = 1, Route_Nice = 10, Route_FromName = ''*'', Route_ToName = ''*'',
                    Route_FromAddress = ''*'', Route_ToAddress = ''*'', Route_Subject = ''*'',
                    Route_RouteVia = 9\<rparr>,
                  \<lparr>Route_ID = 2, Route_Nice = 5, Route_FromName = ''*'', Route_ToName = ''*'',
                    Route_FromAddress = ''*'', Route_ToAddress = ''2:5020/200'',
                    Route_Subject = ''*'', Route_RouteVia = 4\<rparr>]\<rparr>"

definition netmailArea :: SQLArea where
  "netmailArea = Init NewSQLNetmailArea"

definition plainHelpers :: Helpers where
  "plainHelpers = \<lparr>MakeBody = (\<lambda>a msg. msg), ParseRawNoDecoding = (\<lambda>msg. msg),
                    EncodeCharmap = (\<lambda>s charset. s), AddrFromString = (\<lambda>s. None)\<rparr>"

definition utf8Config :: Config where
  "utf8Config = \<lparr>Username = ''sysop'', Chrs_Default = ''UTF-8'', Chrs_JnodeDefault = []\<rparr>"

definition noCache :: CountCache where
  "noCache = \<lparr>messageCountCache = None, netmailCountCache = 0, countCacheValid = False\<rparr>"

definition mailTo :: "FidoAddr \<Rightarrow> (string \<times> string) list \<Rightarrow> Message" where
  "mailTo addr kludges =
     \<lparr>Area = ''Netmail'', MsgNum = 0, MaxNum = 0, From = ''Alice'', To = ''Bob'',
      FromAddr = AddrFromNum 2 5020 1 0, ToAddr = addr, Subject = ''hello'', Body = ''hi'',
      DateWritten = 0, DateArrived = 0, Attrs = [''Pvt''], Kludges = kludges,
      Corrupted = False\<rparr>"

definition echoArea :: SQLArea where
  "echoArea = Init (NewSQLArea \<lparr>Echoarea_ID = 7, Echoarea_Name = ''FIDO.TEST'',
                                 Echoarea_Description = ''Test area'', Echoarea_WLevel = 0,
                                 Echoarea_RLevel = 0, Echoarea_Grp = []\<rparr>)"

definition arrivedDB :: DB where
  "arrivedDB = emptyDB
     \<lparr>echomail := [\<lparr>Echomail_ID = 1, Echomail_EchoareaID = 7, Echomail_FromName = ''Alice'',
                     Echomail_ToName = ''All'', Echomail_FromFtnAddr = ''2:5020/1'',
                     Echomail_Date = 0, Echomail_Subject = ''hello'', Echomail_Message = ''hi'',
                     Echomail_SeenBy = [], Echomail_Path = [], Echomail_MsgID = []\<rparr>],
      echomailSeq := 2\<rparr>"

definition twoDB :: DB where
  "twoDB = arrivedDB
     \<lparr>echomail := echomail arrivedDB @
        [\<lparr>Echomail_ID = 2, Echomail_EchoareaID = 7, Echomail_FromName = ''Bob'',
          Echomail_ToName = ''Alice'', Echomail_FromFtnAddr = ''2:5020/2'',
          Echomail_Date = 0, Echomail_Subject = ''Re: hello'', Echomail_Message = ''hi too'',
          Echomail_SeenBy = [], Echomail_Path = [], Echomail_MsgID = []\<rparr>]\<rparr>"

definition readArea :: SQLArea where
  "readArea = fst (SetLast utf8Config 0 None echoArea 2)"

definition cacheAtStartup :: CountCache where
  "cacheAtStartup = snd (RefreshMessageCounts (Some emptyDB) noCache)"

text \<open>
  The database with the two messages after a netmail message has been saved, and the
  echo area 7 after \<^verbatim>\<open>GetMessages\<close> has loaded its list of the two messages.
\<close>

definition postedDB :: DB where
  "postedDB = fst (snd (snd (SaveMsg plainHelpers utf8Config 0 netmailArea
                               (mailTo (AddrFromNum 2 5020 200 0) []) twoDB noCache)))"

definition listedArea :: SQLArea where
  "listedArea = GetMessages twoDB echoArea"

text \<open>
  A line of 21 bytes: ten bytes 0xFF, which are not UTF-8, then \<^verbatim>\<open>"> hello wor"\<close>.
\<close>

definition brokenLine :: string where
  "brokenLine = [CHR 0xFF, CHR 0xFF, CHR 0xFF, CHR 0xFF, CHR 0xFF, CHR 0xFF, CHR 0xFF, CHR 0xFF,
                 CHR 0xFF, CHR 0xFF] @ ''> hello wor''"

section \<open>The example data, evaluated\<close>

lemma netmailArea_record:
  "netmailArea = \<lparr>areaID = 0, areaName = ''Netmail'', areaType = EchoAreaTypeNetmail,
                   chrs = [], messageListCache = [], messageListValid = False,
                   lastReadPosition = 0\<rparr>"
  by (simp add: netmailArea_def NewSQLNetmailArea_def Init_def)

lemma echoArea_record:
  "echoArea = \<lparr>areaID = 7, areaName = ''FIDO.TEST'', areaType = EchoAreaTypeEcho,
                chrs = [], messageListCache = [], messageListValid = False,
                lastReadPosition = 0\<rparr>"
  by (simp add: echoArea_def NewSQLArea_def Init_def mapJnodeAreaType_def)

lemma readArea_record:
  "readArea = \<lparr>areaID = 7, areaName = ''FIDO.TEST'', areaType = EchoAreaTypeEcho,
                chrs = [], messageListCache = [], messageListValid = False,
                lastReadPosition = 2\<rparr>"
  by (simp add: readArea_def SetLast_def IsLastReadEnabled_def echoArea_record)

lemma listedArea_fields:
  "areaID listedArea = 7" "areaType listedArea = EchoAreaTypeEcho" "messageListValid listedArea"
  "length (messageListCache listedArea) = 2"
  by (simp_all add: listedArea_def GetMessages_def loadEchomailList_def gormFind_def Let_def
      echoArea_record twoDB_def arrivedDB_def emptyDB_def)

section \<open>Properties of the line-ending adapters\<close>

lemma CR_neq_LF [simp]: "CR \<noteq> LF" "LF \<noteq> CR"
  by (simp_all add: CR_def LF_def)

lemma TrimRightByte_append_takeWhile:
  "TrimRightByte s c @ rev (takeWhile (\<lambda>x. x = c) (rev s)) = s"
proof -
  have "rev (takeWhile (\<lambda>x. x = c) (rev s) @ dropWhile (\<lambda>x. x = c) (rev s)) = s"
    by simp
  then show ?thesis
    unfolding TrimRightByte_def rev_append .
qed

lemma TrimRightByte_last:
  "TrimRightByte s c \<noteq> [] \<Longrightarrow> last (TrimRightByte s c) \<noteq> c"
proof -
  assume ne: "TrimRightByte s c \<noteq> []"
  then have d: "dropWhile (\<lambda>x. x = c) (rev s) \<noteq> []"
    by (simp add: TrimRightByte_def)
  then have "hd (dropWhile (\<lambda>x. x = c) (rev s)) \<noteq> c"
    using hd_dropWhile [of "\<lambda>x. x = c" "rev s"] by simp
  with d show ?thesis
    by (simp add: TrimRightByte_def last_rev)
qed

lemma TrimRightByte_set: "set (TrimRightByte s c) \<subseteq> set s"
  using set_dropWhileD [of _ "\<lambda>x. x = c" "rev s"]
  by (auto simp: TrimRightByte_def)

lemma TrimRightByte_prefix: "prefix (TrimRightByte s c) s"
  by (metis TrimRightByte_append_takeWhile prefixI)

lemma TrimRightByte_dropped:
  "set (drop (length (TrimRightByte s c)) s) \<subseteq> {c}"
proof -
  have "drop (length (TrimRightByte s c)) s = rev (takeWhile (\<lambda>x. x = c) (rev s))"
    by (metis TrimRightByte_append_takeWhile append_eq_conv_conj)
  then show ?thesis
    using set_takeWhileD [of _ "\<lambda>x. x = c" "rev s"] by auto
qed

lemma CR_notin_ReplaceAllByte: "CR \<notin> set (ReplaceAllByte body CR LF)"
  by (auto simp: ReplaceAllByte_def)

lemma trailingLFs_snoc:
  "trailingLFs (TrimRightByte s LF @ [LF]) = 1"
proof (cases "TrimRightByte s LF = []")
  case True
  then show ?thesis by (simp add: trailingLFs_def)
next
  case False
  then have "last (TrimRightByte s LF) \<noteq> LF"
    by (rule TrimRightByte_last)
  with False have "takeWhile (\<lambda>c. c = LF) (rev (TrimRightByte s LF)) = []"
    by (cases "TrimRightByte s LF" rule: rev_cases) simp_all
  then show ?thesis
    by (simp add: trailingLFs_def)
qed

text \<open>
  C7. For every body, \<^verbatim>\<open>NormalizeForStorage\<close> returns a string without carriage
  returns that ends with exactly one line feed: up to that final line feed it is the
  body with every carriage return replaced by a line feed, and what was cut from the
  body were only trailing carriage returns and line feeds. \<^verbatim>\<open>NormalizeFromStorage\<close>
  is the opposite substitution: every line feed becomes a carriage return, nothing else
  changes, and no line feed is left.
\<close>

theorem NormalizeForStorage_line_endings:
  "CR \<notin> set (NormalizeForStorage body)
   \<and> trailingLFs (NormalizeForStorage body) = 1
   \<and> butlast (NormalizeForStorage body)
       = map (\<lambda>c. if c = CR then LF else c)
           (take (length (NormalizeForStorage body) - 1) body)
   \<and> set (drop (length (NormalizeForStorage body) - 1) body) \<subseteq> {CR, LF}
   \<and> NormalizeFromStorage body = map (\<lambda>c. if c = LF then CR else c) body
   \<and> LF \<notin> set (NormalizeFromStorage body)"
proof -
  let ?r = "ReplaceAllByte body CR LF"
  let ?t = "TrimRightByte ?r LF"
  have nf: "NormalizeForStorage body = ?t @ [LF]"
    by (simp add: NormalizeForStorage_def)
  have c1: "CR \<notin> set (NormalizeForStorage body)"
    using TrimRightByte_set [of ?r LF] CR_notin_ReplaceAllByte [of body]
    by (auto simp: nf)
  have c2: "trailingLFs (NormalizeForStorage body) = 1"
    by (simp add: nf trailingLFs_snoc)
  have pre: "?t = take (length ?t) ?r"
    using TrimRightByte_prefix [of ?r LF]
    by (metis append_eq_conv_conj prefixE)
  have c3: "butlast (NormalizeForStorage body)
       = map (\<lambda>c. if c = CR then LF else c)
           (take (length (NormalizeForStorage body) - 1) body)"
    using pre by (simp add: nf ReplaceAllByte_def take_map)
  have "set (drop (length ?t) ?r) \<subseteq> {LF}"
    by (rule TrimRightByte_dropped)
  then have "set (drop (length ?t) body) \<subseteq> {CR, LF}"
    by (auto simp: ReplaceAllByte_def drop_map split: if_splits)
  then have c4: "set (drop (length (NormalizeForStorage body) - 1) body) \<subseteq> {CR, LF}"
    by (simp add: nf)
  have c5: "NormalizeFromStorage body = map (\<lambda>c. if c = LF then CR else c) body"
    by (simp add: NormalizeFromStorage_def ReplaceAllByte_def)
  have c6: "LF \<notin> set (NormalizeFromStorage body)"
    by (auto simp: c5)
  from c1 c2 c3 c4 c5 c6 show ?thesis by blast
qed

section \<open>Properties of the message-count cache\<close>

lemma fold_counts_apply:
  "(fold (\<lambda>count result. result(AreaCount_EchoareaID count \<mapsto> AreaCount_Count count))
      (map (\<lambda>i. \<lparr>AreaCount_EchoareaID = i, AreaCount_Count = g i\<rparr>) ids) m) k
   = (if k \<in> set ids then Some (g k) else m k)"
  by (induction ids arbitrary: m) auto

lemma Increment_invalid:
  "\<not> countCacheValid c \<Longrightarrow> IncrementMessageCount aID isNetmail c = c"
  by (simp add: IncrementMessageCount_def)

lemma Increment_netmail:
  "countCacheValid c \<Longrightarrow>
     IncrementMessageCount aID True c = c\<lparr>netmailCountCache := netmailCountCache c + 1\<rparr>"
  by (simp add: IncrementMessageCount_def)

lemma Increment_echo:
  assumes "countCacheValid c"
  shows "cachedCount (IncrementMessageCount aID False c) aID = cachedCount c aID + 1"
    and "k \<noteq> aID \<Longrightarrow> cacheEntries (IncrementMessageCount aID False c) k = cacheEntries c k"
    and "netmailCountCache (IncrementMessageCount aID False c) = netmailCountCache c"
    and "countCacheValid (IncrementMessageCount aID False c)"
  using assms
  by (auto simp: IncrementMessageCount_def cachedCount_def cacheEntries_def Let_def
      split: option.splits)

lemma Refresh_ok:
  assumes "RefreshMessageCounts (Some d) c = (None, c')"
  shows "reachable d"
    and "countCacheValid c'"
    and "netmailCountCache c' = int (length (netmail d))"
    and "cacheEntries c' k =
           (if k \<in> Echomail_EchoareaID ` set (echomail d)
            then Some (int (length (filter (\<lambda>e. Echomail_EchoareaID e = k) (echomail d))))
            else None)"
  using assms
  by (auto simp: RefreshMessageCounts_def GetAllEchoareaCounts_def GetNetmailCount_def
      gormFind_def gormCount_def cacheEntries_def fold_counts_apply
      split: if_splits sum.splits)

lemma GetCount_after_Refresh:
  assumes "RefreshMessageCounts (Some d) c = (None, c')"
  shows "GetCount c' d a = word_of_int (int (storedMessages d a))"
proof -
  note r = Refresh_ok [OF assms]
  show ?thesis
  proof (cases "areaType a = EchoAreaTypeNetmail")
    case True
    then show ?thesis
      using r(2,3) by (simp add: GetCount_def storedMessages_def)
  next
    case False
    have e: "(case messageCountCache c' of None \<Rightarrow> None | Some m \<Rightarrow> m (areaID a))
             = cacheEntries c' (areaID a)"
      by (simp add: cacheEntries_def split: option.splits)
    have z: "areaID a \<notin> Echomail_EchoareaID ` set (echomail d)
             \<Longrightarrow> filter (\<lambda>e. Echomail_EchoareaID e = areaID a) (echomail d) = []"
      by (auto simp: filter_empty_conv intro: rev_image_eqI)
    show ?thesis
      using False r(2) z
      by (simp add: GetCount_def storedMessages_def e r(4))
  qed
qed

lemma GetCount_direct:
  "reachable d \<Longrightarrow> \<not> countCacheValid c
     \<Longrightarrow> GetCount c d a = word_of_int (int (storedMessages d a))"
  by (simp add: GetCount_def storedMessages_def gormCount_def)

lemma postedDB_tables:
  "reachable postedDB" "echomail postedDB = echomail twoDB" "length (netmail postedDB) = 1"
  by (simp_all add: postedDB_def SaveMsg_def saveNetmailMessage_def Let_def netmailArea_record
      twoDB_def arrivedDB_def emptyDB_def)

lemma Refresh_succeeds:
  "fst (RefreshMessageCounts (Some d) c) = None \<longleftrightarrow> reachable d"
  by (simp add: RefreshMessageCounts_def GetAllEchoareaCounts_def GetNetmailCount_def
      gormFind_def gormCount_def)

text \<open>
  C6. \<^verbatim>\<open>IncrementMessageCount\<close> leaves the cache as it is while the cache is invalid.
  While it is valid, the call for netmail adds one to the netmail total and changes
  nothing else, and the call for an area adds one to the count of that area (an absent
  entry counts as 0) and changes no other entry, nor the netmail total, nor the
  validity. \<^verbatim>\<open>RefreshMessageCounts\<close> returns no error exactly when the database
  answers, and after a \<^verbatim>\<open>RefreshMessageCounts\<close> that returned no error, \<^verbatim>\<open>GetCount\<close>
  of every area is the number of rows stored for the area (as a \<^verbatim>\<open>uint32\<close>), which is
  also what \<^verbatim>\<open>GetCount\<close> returns through its direct \<^verbatim>\<open>COUNT\<close> query once the cache is
  invalidated.
\<close>

theorem IncrementMessageCount_and_Refresh:
  "(\<not> countCacheValid c \<longrightarrow> IncrementMessageCount aID isNetmail c = c)
   \<and> (countCacheValid c \<longrightarrow>
        IncrementMessageCount aID True c = c\<lparr>netmailCountCache := netmailCountCache c + 1\<rparr>)
   \<and> (countCacheValid c \<longrightarrow>
        cachedCount (IncrementMessageCount aID False c) aID = cachedCount c aID + 1
        \<and> (\<forall>k. k \<noteq> aID \<longrightarrow>
               cacheEntries (IncrementMessageCount aID False c) k = cacheEntries c k)
        \<and> netmailCountCache (IncrementMessageCount aID False c) = netmailCountCache c
        \<and> countCacheValid (IncrementMessageCount aID False c))
   \<and> (fst (RefreshMessageCounts (Some d) c) = None \<longleftrightarrow> reachable d)
   \<and> (RefreshMessageCounts (Some d) c = (None, c') \<longrightarrow>
        (\<forall>a. GetCount c' d a = word_of_int (int (storedMessages d a))
             \<and> GetCount c' d a = GetCount (InvalidateMessageCounts c') d a))"
proof (intro conjI impI allI)
  show "fst (RefreshMessageCounts (Some d) c) = None \<longleftrightarrow> reachable d"
    by (rule Refresh_succeeds)
next
  assume "RefreshMessageCounts (Some d) c = (None, c')"
  then show "GetCount c' d a = word_of_int (int (storedMessages d a))" for a
    by (rule GetCount_after_Refresh)
next
  assume r: "RefreshMessageCounts (Some d) c = (None, c')"
  have "GetCount (InvalidateMessageCounts c') d a = word_of_int (int (storedMessages d a))" for a
    using Refresh_ok(1) [OF r]
    by (intro GetCount_direct) (simp_all add: InvalidateMessageCounts_def)
  then show "GetCount c' d a = GetCount (InvalidateMessageCounts c') d a" for a
    using GetCount_after_Refresh [OF r] by simp
qed (simp_all add: Increment_invalid Increment_netmail Increment_echo)

text \<open>
  The cache loaded from the database without rows is refreshed from the database that
  holds two messages in the area 7 and one netmail message: \<^verbatim>\<open>GetCount\<close> is then 2
  for the area 7, 1 for the netmail area and 0 for an area without messages.
\<close>

theorem IncrementMessageCount_and_Refresh_witness:
  "IncrementMessageCount 7 False
      \<lparr>messageCountCache = None, netmailCountCache = 4, countCacheValid = False\<rparr>
     = \<lparr>messageCountCache = None, netmailCountCache = 4, countCacheValid = False\<rparr>
   \<and> netmailCountCache (IncrementMessageCount 7 True
        \<lparr>messageCountCache = None, netmailCountCache = 4, countCacheValid = True\<rparr>) = 5
   \<and> cachedCount (IncrementMessageCount 7 False
        \<lparr>messageCountCache = None, netmailCountCache = 4, countCacheValid = True\<rparr>) 7 = 1
   \<and> fst (RefreshMessageCounts (Some postedDB) cacheAtStartup) = None
   \<and> GetCount (snd (RefreshMessageCounts (Some postedDB) cacheAtStartup)) postedDB echoArea = 2
   \<and> GetCount (snd (RefreshMessageCounts (Some postedDB) cacheAtStartup)) postedDB netmailArea = 1
   \<and> GetCount (snd (RefreshMessageCounts (Some postedDB) cacheAtStartup)) postedDB
        (echoArea\<lparr>areaID := 8\<rparr>) = 0"
proof -
  let ?c' = "snd (RefreshMessageCounts (Some postedDB) cacheAtStartup)"
  note inv = IncrementMessageCount_and_Refresh
      [of "\<lparr>messageCountCache = None, netmailCountCache = 4, countCacheValid = False\<rparr>"
          7 False postedDB ?c']
  note val = IncrementMessageCount_and_Refresh
      [of "\<lparr>messageCountCache = None, netmailCountCache = 4, countCacheValid = True\<rparr>"
          7 False]
  note ref = IncrementMessageCount_and_Refresh [of _ _ _ postedDB ?c', where c = cacheAtStartup]
  have i: "IncrementMessageCount 7 False
      \<lparr>messageCountCache = None, netmailCountCache = 4, countCacheValid = False\<rparr>
     = \<lparr>messageCountCache = None, netmailCountCache = 4, countCacheValid = False\<rparr>"
    using inv by simp
  have v: "netmailCountCache (IncrementMessageCount 7 True
        \<lparr>messageCountCache = None, netmailCountCache = 4, countCacheValid = True\<rparr>) = 5"
    "cachedCount (IncrementMessageCount 7 False
        \<lparr>messageCountCache = None, netmailCountCache = 4, countCacheValid = True\<rparr>) 7 = 1"
    using val by (simp_all add: cachedCount_def cacheEntries_def)
  have ok: "fst (RefreshMessageCounts (Some postedDB) cacheAtStartup) = None"
    using ref postedDB_tables(1) by simp
  then have eq: "RefreshMessageCounts (Some postedDB) cacheAtStartup = (None, ?c')"
    by (metis prod.collapse)
  have s: "storedMessages postedDB echoArea = 2" "storedMessages postedDB netmailArea = 1"
    "storedMessages postedDB (echoArea\<lparr>areaID := 8\<rparr>) = 0"
    by (simp_all add: storedMessages_def postedDB_tables echoArea_record netmailArea_record
        twoDB_def arrivedDB_def emptyDB_def)
  have g: "GetCount ?c' postedDB a = word_of_int (int (storedMessages postedDB a))" for a
    using ref eq by blast
  show ?thesis
    using i v ok by (simp add: g s)
qed

section \<open>Reading and deleting beyond the stored rows\<close>

lemma offset_beyond:
  fixes position :: u32
  assumes "length rows < unat position"
  shows "drop (unat ((if position = 0 then 1 else position) - 1)) (sort_key f rows) = []"
proof -
  from assms have nz: "position \<noteq> 0"
    by (auto simp: unat_eq_0)
  then have "unat (position - 1) = unat position - 1"
    by (simp add: unat_minus_one)
  with assms nz show ?thesis by simp
qed

lemma getEchomailMessage_beyond:
  fixes position :: u32
  assumes "length (filter (\<lambda>e. Echomail_EchoareaID e = areaID a) (echomail d)) < unat position"
  shows "getEchomailMessage h cfg c d a (if position = 0 then 1 else position)
         = (if reachable d then Inr None
            else Inl (Errorf ''error retrieving echomail message: '' (Some ErrDriver)))"
  using offset_beyond [OF assms, of Echomail_ID]
  by (simp add: getEchomailMessage_def gormFirst_def)

lemma getNetmailMessage_beyond:
  fixes position :: u32
  assumes "length (netmail d) < unat position"
  shows "getNetmailMessage h cfg c d a (if position = 0 then 1 else position)
         = (if reachable d then Inr None
            else Inl (Errorf ''error retrieving netmail message: '' (Some ErrDriver)))"
  using offset_beyond [OF assms, of Netmail_ID]
  by (simp add: getNetmailMessage_def gormFirst_def)

lemma GetMsg_beyond:
  assumes "storedMessages d a < unat position" and "reachable d"
  shows "GetMsg h cfg c d a position = Inr None"
proof (cases "areaType a = EchoAreaTypeNetmail")
  case True
  with assms show ?thesis
    using getNetmailMessage_beyond [of d position h cfg c a]
    by (simp add: GetMsg_def storedMessages_def Let_def)
next
  case False
  with assms show ?thesis
    using getEchomailMessage_beyond [of a d position h cfg c]
    by (simp add: GetMsg_def storedMessages_def Let_def)
qed

lemma DelMsg_beyond:
  assumes "storedMessages d a < unat position"
  shows "DelMsg a d position =
           (Some (Errorf (if areaType a = EchoAreaTypeNetmail
                          then ''error finding netmail message to delete: ''
                          else ''error finding echomail message to delete: '')
                    (Some (if reachable d then ErrRecordNotFound else ErrDriver))), a, d)"
proof (cases "areaType a = EchoAreaTypeNetmail")
  case True
  with assms show ?thesis
    using offset_beyond [of "netmail d" position Netmail_ID]
    by (simp add: DelMsg_def deleteNetmailMessage_def storedMessages_def Let_def gormFirst_def)
next
  case False
  with assms show ?thesis
    using offset_beyond [of "filter (\<lambda>e. Echomail_EchoareaID e = areaID a) (echomail d)"
        position Echomail_ID]
    by (simp add: DelMsg_def deleteEchomailMessage_def storedMessages_def Let_def gormFirst_def)
qed

text \<open>
  C2, as the claim states it, fails: \<^verbatim>\<open>GetCount\<close> answers from the count cache while
  the cache is valid, and the cache is loaded once at startup. Here the cache was
  loaded from the empty database and a message has arrived in the area since:
  \<^verbatim>\<open>GetCount()\<close> is 0, position 1 is beyond it, and \<^verbatim>\<open>GetMsg(1)\<close> returns the
  message.
\<close>

theorem GetMsg_beyond_stale_count:
  "countCacheValid cacheAtStartup
   \<and> GetCount cacheAtStartup arrivedDB echoArea = 0
   \<and> GetCount cacheAtStartup arrivedDB echoArea < 1
   \<and> GetMsg plainHelpers utf8Config cacheAtStartup arrivedDB echoArea 1 \<noteq> Inr None
   \<and> map_sum id (map_option Subject)
        (GetMsg plainHelpers utf8Config cacheAtStartup arrivedDB echoArea 1)
      = Inr (Some ''hello'')"
proof -
  have c: "cacheAtStartup
     = \<lparr>messageCountCache = Some Map.empty, netmailCountCache = 0, countCacheValid = True\<rparr>"
    by (simp add: cacheAtStartup_def RefreshMessageCounts_def GetAllEchoareaCounts_def
        GetNetmailCount_def gormFind_def gormCount_def emptyDB_def)
  have g: "GetCount cacheAtStartup arrivedDB echoArea = 0"
    by (simp add: c GetCount_def echoArea_record)
  have s: "SplitByte ''UTF-8'' (CHR '' '') = [''UTF-8'']"
    by (simp add: SplitByte_def)
  have m: "map_sum id (map_option Subject)
        (GetMsg plainHelpers utf8Config cacheAtStartup arrivedDB echoArea 1)
      = Inr (Some ''hello'')"
    by (simp add: GetMsg_def getEchomailMessage_def gormFirst_def arrivedDB_def emptyDB_def
        echoArea_record plainHelpers_def utf8Config_def toDisplayCharset_def s Let_def)
  then have ne: "GetMsg plainHelpers utf8Config cacheAtStartup arrivedDB echoArea 1 \<noteq> Inr None"
    by auto
  have v: "countCacheValid cacheAtStartup"
    by (simp add: c)
  from v g m ne show ?thesis by simp
qed

text \<open>
  C2, amended. \<^verbatim>\<open>GetMsg(0)\<close> returns what \<^verbatim>\<open>GetMsg(1)\<close> returns. When the database
  answers the query, \<^verbatim>\<open>GetMsg\<close> at a position beyond the number of rows stored for
  the area returns no message and no error; so it does at every position beyond
  \<^verbatim>\<open>GetCount()\<close> whenever \<^verbatim>\<open>GetCount()\<close> is that number of rows.
\<close>

theorem GetMsg_zero_and_beyond:
  "GetMsg h cfg c d a 0 = GetMsg h cfg c d a 1
   \<and> (reachable d \<and> storedMessages d a < unat position
        \<longrightarrow> GetMsg h cfg c d a position = Inr None)
   \<and> (reachable d \<and> unat (GetCount c d a) = storedMessages d a \<and> GetCount c d a < position
        \<longrightarrow> GetMsg h cfg c d a position = Inr None)"
proof (intro conjI impI)
  show "GetMsg h cfg c d a 0 = GetMsg h cfg c d a 1"
    by (simp add: GetMsg_def)
next
  assume "reachable d \<and> storedMessages d a < unat position"
  then show "GetMsg h cfg c d a position = Inr None"
    using GetMsg_beyond by blast
next
  assume h: "reachable d \<and> unat (GetCount c d a) = storedMessages d a \<and> GetCount c d a < position"
  then have "storedMessages d a < unat position"
    by (simp add: word_less_nat_alt)
  with h show "GetMsg h cfg c d a position = Inr None"
    using GetMsg_beyond by blast
qed

theorem GetMsg_zero_and_beyond_witness:
  "GetMsg plainHelpers utf8Config noCache arrivedDB echoArea 0
     = GetMsg plainHelpers utf8Config noCache arrivedDB echoArea 1
   \<and> GetMsg plainHelpers utf8Config noCache arrivedDB echoArea 2 = Inr None
   \<and> GetCount noCache arrivedDB echoArea = 1"
proof -
  have r: "reachable arrivedDB"
    by (simp add: arrivedDB_def emptyDB_def)
  have s: "storedMessages arrivedDB echoArea = 1"
    by (simp add: storedMessages_def arrivedDB_def emptyDB_def echoArea_record)
  have g: "GetCount noCache arrivedDB echoArea = 1"
    by (simp add: GetCount_def gormCount_def noCache_def arrivedDB_def emptyDB_def echoArea_record)
  show ?thesis
    using GetMsg_zero_and_beyond [of plainHelpers utf8Config noCache arrivedDB echoArea 2] r s g
    by simp
qed

text \<open>
  C10, as the claim states it, fails. The count cache was loaded from the database
  without rows and two messages have arrived in the area 7 since; the area has loaded
  its message list. \<^verbatim>\<open>GetCount()\<close> is 0 and position 1 is beyond it, yet \<^verbatim>\<open>DelMsg(1)\<close>
  returns no error, deletes a row and clears the validity flag of the message list.
  And when the database does not answer, \<^verbatim>\<open>GetMsg\<close> at a position beyond the count
  returns an error, not the outcome without a message and without an error.
\<close>

theorem DelMsg_beyond_stale_count:
  "countCacheValid cacheAtStartup
   \<and> GetCount cacheAtStartup twoDB listedArea = 0
   \<and> GetCount cacheAtStartup twoDB listedArea < 1
   \<and> fst (DelMsg listedArea twoDB 1) = None
   \<and> length (echomail twoDB) = 2
   \<and> length (echomail (snd (snd (DelMsg listedArea twoDB 1)))) = 1
   \<and> messageListValid listedArea
   \<and> \<not> messageListValid (fst (snd (DelMsg listedArea twoDB 1)))
   \<and> storedMessages (emptyDB\<lparr>reachable := False\<rparr>) echoArea = 0
   \<and> GetCount noCache (emptyDB\<lparr>reachable := False\<rparr>) echoArea = 0
   \<and> GetMsg plainHelpers utf8Config noCache (emptyDB\<lparr>reachable := False\<rparr>) echoArea 1
       = Inl (Errorf ''error retrieving echomail message: '' (Some ErrDriver))"
proof -
  have c: "cacheAtStartup
     = \<lparr>messageCountCache = Some Map.empty, netmailCountCache = 0, countCacheValid = True\<rparr>"
    by (simp add: cacheAtStartup_def RefreshMessageCounts_def GetAllEchoareaCounts_def
        GetNetmailCount_def gormFind_def gormCount_def emptyDB_def)
  have v: "countCacheValid cacheAtStartup"
    by (simp add: c)
  have g: "GetCount cacheAtStartup twoDB listedArea = 0"
    by (simp add: c GetCount_def listedArea_fields)
  have d: "fst (DelMsg listedArea twoDB 1) = None"
    "length (echomail (snd (snd (DelMsg listedArea twoDB 1)))) = 1"
    "\<not> messageListValid (fst (snd (DelMsg listedArea twoDB 1)))"
    by (simp_all add: DelMsg_def deleteEchomailMessage_def gormFirst_def listedArea_fields
        twoDB_def arrivedDB_def emptyDB_def Let_def)
  have l: "length (echomail twoDB) = 2"
    by (simp add: twoDB_def arrivedDB_def emptyDB_def)
  have u: "storedMessages (emptyDB\<lparr>reachable := False\<rparr>) echoArea = 0"
    "GetCount noCache (emptyDB\<lparr>reachable := False\<rparr>) echoArea = 0"
    "GetMsg plainHelpers utf8Config noCache (emptyDB\<lparr>reachable := False\<rparr>) echoArea 1
       = Inl (Errorf ''error retrieving echomail message: '' (Some ErrDriver))"
    by (simp_all add: storedMessages_def GetCount_def gormCount_def noCache_def GetMsg_def
        getEchomailMessage_def gormFirst_def emptyDB_def echoArea_record)
  from v g d l u listedArea_fields(3) show ?thesis by simp
qed

text \<open>
  C10, amended. At a position beyond the number of rows stored for the area, \<^verbatim>\<open>DelMsg\<close>
  returns an error and leaves the area (with the validity flag of its message-list
  cache) and the database as they were, while \<^verbatim>\<open>GetMsg\<close> at that position, when the
  database answers, returns no message and no error. The same holds at a position
  beyond \<^verbatim>\<open>GetCount()\<close> whenever \<^verbatim>\<open>GetCount()\<close> is that number of rows.
\<close>

theorem DelMsg_beyond_count:
  "(storedMessages d a < unat position
      \<longrightarrow> fst (DelMsg a d position) \<noteq> None
          \<and> snd (DelMsg a d position) = (a, d)
          \<and> (reachable d \<longrightarrow> GetMsg h cfg c d a position = Inr None))
   \<and> (unat (GetCount c d a) = storedMessages d a \<and> GetCount c d a < position
      \<longrightarrow> fst (DelMsg a d position) \<noteq> None
          \<and> snd (DelMsg a d position) = (a, d)
          \<and> (reachable d \<longrightarrow> GetMsg h cfg c d a position = Inr None))"
proof -
  have a: "fst (DelMsg a d position) \<noteq> None
          \<and> snd (DelMsg a d position) = (a, d)
          \<and> (reachable d \<longrightarrow> GetMsg h cfg c d a position = Inr None)"
    if "storedMessages d a < unat position"
    using DelMsg_beyond [OF that] GetMsg_beyond [OF that] by simp
  have b: "storedMessages d a < unat position"
    if "unat (GetCount c d a) = storedMessages d a \<and> GetCount c d a < position"
    using that by (simp add: word_less_nat_alt)
  from a b show ?thesis by blast
qed

text \<open>
  The area 7 holds two messages and has loaded its message list: \<^verbatim>\<open>DelMsg(3)\<close>
  returns an error, both rows and the validity flag stay, and \<^verbatim>\<open>GetMsg(3)\<close> returns
  no message and no error.
\<close>

theorem DelMsg_beyond_count_witness:
  "fst (DelMsg listedArea twoDB 3) \<noteq> None
   \<and> snd (DelMsg listedArea twoDB 3) = (listedArea, twoDB)
   \<and> messageListValid listedArea
   \<and> length (echomail twoDB) = 2
   \<and> GetMsg plainHelpers utf8Config noCache twoDB listedArea 3 = Inr None
   \<and> GetCount noCache twoDB listedArea = 2"
proof -
  have s: "storedMessages twoDB listedArea = 2"
    by (simp add: storedMessages_def listedArea_fields twoDB_def arrivedDB_def emptyDB_def)
  then have p: "storedMessages twoDB listedArea < unat (3::u32)"
    by simp
  have r: "reachable twoDB"
    by (simp add: twoDB_def arrivedDB_def emptyDB_def)
  have g: "GetCount noCache twoDB listedArea = 2"
    by (simp add: GetCount_def gormCount_def noCache_def listedArea_fields twoDB_def
        arrivedDB_def emptyDB_def)
  have l: "length (echomail twoDB) = 2"
    by (simp add: twoDB_def arrivedDB_def emptyDB_def)
  show ?thesis
    using DelMsg_beyond_count [of twoDB listedArea 3 plainHelpers utf8Config noCache] p r g s l
      listedArea_fields(3)
    by simp
qed

section \<open>Routing of netmail\<close>

lemma gormFirst_reachable:
  "reachable d \<Longrightarrow>
     gormFirst d rows = (case rows of [] \<Rightarrow> Inl ErrRecordNotFound | r # _ \<Rightarrow> Inr r)"
  by (simp add: gormFirst_def)

lemma sort_key_eq_Nil: "sort_key f xs = [] \<longleftrightarrow> xs = []"
  using length_sort [of f xs] by (metis length_0_conv)

lemma sort_key_head:
  assumes "sort_key f xs = y # ys"
  shows "y \<in> set xs" and "\<forall>z\<in>set xs. f y \<le> f z"
proof -
  have s: "set (y # ys) = set xs"
    using assms set_sort [of f xs] by simp
  then show "y \<in> set xs" by auto
  have "sorted (map f (y # ys))"
    using assms sorted_sort_key [of f xs] by simp
  then have "\<forall>z\<in>set ys. f y \<le> f z" by simp
  with s show "\<forall>z\<in>set xs. f y \<le> f z" by auto
qed

lemma hasLink_filter:
  "hasLink d addr \<longleftrightarrow> filter (\<lambda>l. Link_FtnAddress l = addr) (links d) \<noteq> []"
  by (auto simp: hasLink_def list_ex_iff filter_empty_conv)

lemma route_direct:
  assumes "reachable d" and "hasLink d (FidoAddr_String (ToAddr msg))"
  shows "findNetmailRoute d msg = (None, None)"
proof -
  from assms(2) have "sort_key Link_ID
      (filter (\<lambda>l. Link_FtnAddress l = FidoAddr_String (ToAddr msg)) (links d)) \<noteq> []"
    by (simp add: hasLink_filter sort_key_eq_Nil)
  then obtain l ls where "sort_key Link_ID
      (filter (\<lambda>l. Link_FtnAddress l = FidoAddr_String (ToAddr msg)) (links d)) = l # ls"
    by (cases "sort_key Link_ID
      (filter (\<lambda>l. Link_FtnAddress l = FidoAddr_String (ToAddr msg)) (links d))") auto
  then show ?thesis
    using assms(1) by (simp add: findNetmailRoute_def gormFirst_reachable Let_def)
qed

lemma route_boss:
  assumes "reachable d" and "\<not> hasLink d (FidoAddr_String (ToAddr msg))"
    and "point (ToAddr msg) \<noteq> 0" and "hasLink d (bossAddress msg)"
  shows "\<exists>l\<in>set (links d). Link_FtnAddress l = bossAddress msg
            \<and> findNetmailRoute d msg = (Some (Link_ID l), None)"
proof -
  let ?bs = "filter (\<lambda>l. Link_FtnAddress l = bossAddress msg) (links d)"
  from assms(2) have e: "sort_key Link_ID
      (filter (\<lambda>l. Link_FtnAddress l = FidoAddr_String (ToAddr msg)) (links d)) = []"
    by (simp add: hasLink_filter sort_key_eq_Nil)
  from assms(4) have "sort_key Link_ID ?bs \<noteq> []"
    by (simp add: hasLink_filter sort_key_eq_Nil)
  then obtain l ls where ls: "sort_key Link_ID ?bs = l # ls"
    by (cases "sort_key Link_ID ?bs") auto
  from sort_key_head(1) [OF ls] have "l \<in> set (links d)" "Link_FtnAddress l = bossAddress msg"
    by auto
  moreover have "findNetmailRoute d msg = (Some (Link_ID l), None)"
    using assms(1,3) e ls
    by (simp add: findNetmailRoute_def gormFirst_reachable Let_def bossAddress_def)
  ultimately show ?thesis by blast
qed

lemma route_step3:
  assumes "reachable d" and "\<not> hasLink d (FidoAddr_String (ToAddr msg))"
    and "\<not> (point (ToAddr msg) \<noteq> 0 \<and> hasLink d (bossAddress msg))"
  shows "findNetmailRoute d msg =
     (case sort_key Route_Nice (sort_key Route_ID (filter (routeMatches msg) (routing d))) of
        [] \<Rightarrow> (None, Some (Errorf (''no route found for netmail to ''
                                  @ FidoAddr_String (ToAddr msg)) None))
      | route # _ \<Rightarrow> (Some (Route_RouteVia route), None))"
proof -
  from assms(2) have e: "sort_key Link_ID
      (filter (\<lambda>l. Link_FtnAddress l = FidoAddr_String (ToAddr msg)) (links d)) = []"
    by (simp add: hasLink_filter sort_key_eq_Nil)
  have b: "point (ToAddr msg) \<noteq> 0 \<Longrightarrow> sort_key Link_ID
      (filter (\<lambda>l. Link_FtnAddress l = bossAddress msg) (links d)) = []"
    using assms(3) by (simp add: hasLink_filter sort_key_eq_Nil)
  show ?thesis
    using assms(1) e b
    by (simp add: findNetmailRoute_def gormFirst_reachable Let_def bossAddress_def
        split: list.splits)
qed

lemma route_rule:
  assumes "reachable d" and "\<not> hasLink d (FidoAddr_String (ToAddr msg))"
    and "\<not> (point (ToAddr msg) \<noteq> 0 \<and> hasLink d (bossAddress msg))"
    and "list_ex (routeMatches msg) (routing d)"
  shows "\<exists>r\<in>set (routing d). routeMatches msg r
            \<and> (\<forall>r'\<in>set (routing d). routeMatches msg r' \<longrightarrow> Route_Nice r \<le> Route_Nice r')
            \<and> findNetmailRoute d msg = (Some (Route_RouteVia r), None)"
proof -
  let ?ms = "sort_key Route_ID (filter (routeMatches msg) (routing d))"
  from assms(4) have "filter (routeMatches msg) (routing d) \<noteq> []"
    by (auto simp: list_ex_iff filter_empty_conv)
  then have "sort_key Route_Nice ?ms \<noteq> []"
    by (simp add: sort_key_eq_Nil)
  then obtain r rs where rs: "sort_key Route_Nice ?ms = r # rs"
    by (cases "sort_key Route_Nice ?ms") auto
  have "r \<in> set ?ms" and least: "\<forall>z\<in>set ?ms. Route_Nice r \<le> Route_Nice z"
    using sort_key_head [OF rs] by auto
  then have "r \<in> set (routing d)" "routeMatches msg r"
    by auto
  moreover have "\<forall>r'\<in>set (routing d). routeMatches msg r' \<longrightarrow> Route_Nice r \<le> Route_Nice r'"
    using least by auto
  moreover have "findNetmailRoute d msg = (Some (Route_RouteVia r), None)"
    using route_step3 [OF assms(1-3)] rs by simp
  ultimately show ?thesis by blast
qed

lemma route_none:
  assumes "reachable d" and "\<not> hasLink d (FidoAddr_String (ToAddr msg))"
    and "\<not> (point (ToAddr msg) \<noteq> 0 \<and> hasLink d (bossAddress msg))"
    and "\<not> list_ex (routeMatches msg) (routing d)"
  shows "findNetmailRoute d msg =
           (None, Some (Errorf (''no route found for netmail to ''
                                  @ FidoAddr_String (ToAddr msg)) None))"
proof -
  from assms(4) have "filter (routeMatches msg) (routing d) = []"
    by (auto simp: list_ex_iff filter_empty_conv)
  then show ?thesis
    using route_step3 [OF assms(1-3)] by simp
qed


lemma routeMatches_ruleApplies: "routeMatches = ruleApplies"
  by (intro ext) (simp add: routeMatches_def ruleApplies_def)

lemma routeMatches_Kludges [simp]:
  "routeMatches (m\<lparr>Kludges := k\<rparr>) = routeMatches m"
  by (rule ext) (simp add: routeMatches_def)

lemma findNetmailRoute_Kludges [simp]:
  "findNetmailRoute d (m\<lparr>Kludges := k\<rparr>) = findNetmailRoute d m"
  by (simp add: findNetmailRoute_def Let_def cong: sum.case_cong)

lemma route_ignores_kludges:
  "findNetmailRoute d (overrideChrs cfg m) = findNetmailRoute d m"
  by (simp add: overrideChrs_def)

lemma kludgeLines_delete_MSGID:
  "kludgeLines (AList.delete ''MSGID:'' ks) = kludgeLines ks"
  by (induction ks rule: kludgeLines.induct) (simp_all add: AList.delete_eq)

lemma overrideChrs_fields [simp]:
  "From (overrideChrs cfg m) = From m" "To (overrideChrs cfg m) = To m"
  "FromAddr (overrideChrs cfg m) = FromAddr m" "ToAddr (overrideChrs cfg m) = ToAddr m"
  "Subject (overrideChrs cfg m) = Subject m" "Body (overrideChrs cfg m) = Body m"
  "DateWritten (overrideChrs cfg m) = DateWritten m" "Attrs (overrideChrs cfg m) = Attrs m"
  by (simp_all add: overrideChrs_def)

lemma saveNetmailMessage_row:
  "saveNetmailMessage h cfg now a msg d c =
     (if \<not> reachable d
      then (Some (Errorf ''error saving netmail message: '' (Some ErrDriver)), a, d, c)
      else (None, a\<lparr>messageListValid := False\<rparr>,
            d\<lparr>netmail := netmail d @
               [\<lparr>Netmail_ID = nextID (netmailSeq d) (map Netmail_ID (netmail d)),
                 Netmail_FromName = From (MakeBody h a msg),
                 Netmail_ToName = To (MakeBody h a msg),
                 Netmail_FromAddress = FidoAddr_String (FromAddr (MakeBody h a msg)),
                 Netmail_ToAddress = FidoAddr_String (ToAddr (MakeBody h a msg)),
                 Netmail_Subject = Subject (MakeBody h a msg),
                 Netmail_Text =
                   kludgeLines (AList.delete ''MSGID:''
                                  (Kludges (overrideChrs cfg (MakeBody h a msg))))
                   @ Body (MakeBody h a msg),
                 Netmail_Date = ToUnixTime (DateWritten (MakeBody h a msg)),
                 Netmail_RouteVia = fst (findNetmailRoute d (MakeBody h a msg)),
                 Netmail_Send = False,
                 Netmail_Attr =
                   (if convertAttrsToInt (Attrs (MakeBody h a msg)) = 0 then 256
                    else convertAttrsToInt (Attrs (MakeBody h a msg))),
                 Netmail_LastModified = ToUnixTime now\<rparr>],
              netmailSeq := nextID (netmailSeq d) (map Netmail_ID (netmail d))\<rparr>,
            IncrementMessageCount 0 True c))"
  by (simp add: saveNetmailMessage_def Let_def route_ignores_kludges kludgeLines_delete_MSGID)

lemma saveNetmailMessage_saves:
  assumes "reachable d"
  shows "\<exists>row. saveNetmailMessage h cfg now a msg d c
                 = (None, a\<lparr>messageListValid := False\<rparr>,
                    d\<lparr>netmail := netmail d @ [row], netmailSeq := Netmail_ID row\<rparr>,
                    IncrementMessageCount 0 True c)
               \<and> Netmail_RouteVia row = fst (findNetmailRoute d (MakeBody h a msg))
               \<and> Netmail_ToAddress row = FidoAddr_String (ToAddr (MakeBody h a msg))"
  using assms
  by (intro exI [of _ "last (netmail (fst (snd (snd (saveNetmailMessage h cfg now a msg d c)))))"])
    (simp add: saveNetmailMessage_row)

text \<open>
  C1. \<^verbatim>\<open>SaveMsg\<close> on a netmail area returns no error exactly when the database
  answers, and then it appends one row to the netmail table (the message list of the
  area is invalidated and the netmail count incremented), whatever the outcome of the
  search for a route. The route of that row is resolved in this order,
  on the message as \<^verbatim>\<open>MakeBody\<close> leaves it: null when a link has the destination
  address; otherwise, for a destination with a point, the id of a link that has the
  address of the boss node, when there is one; otherwise, when a routing rule applies
  to the message (each of its five fields equals the field of the message or is
  \<^verbatim>\<open>'*'\<close>), the link named by a rule that applies and whose \<^verbatim>\<open>nice\<close> is least among
  the rules that apply; otherwise \<^verbatim>\<open>findNetmailRoute\<close> returns the no-route error and
  the row is stored all the same, with a null route.
\<close>

theorem SaveMsg_netmail_route:
  assumes "areaType a = EchoAreaTypeNetmail"
  shows
    "(fst (SaveMsg h cfg now a msg d c) = None \<longleftrightarrow> reachable d)
     \<and> (reachable d \<longrightarrow> (\<exists>row.
       SaveMsg h cfg now a msg d c
         = (None, a\<lparr>messageListValid := False\<rparr>,
            d\<lparr>netmail := netmail d @ [row], netmailSeq := Netmail_ID row\<rparr>,
            IncrementMessageCount 0 True c)
       \<and> Netmail_ToAddress row = FidoAddr_String (ToAddr (MakeBody h a msg))
       \<and> (hasLink d (FidoAddr_String (ToAddr (MakeBody h a msg)))
            \<longrightarrow> Netmail_RouteVia row = None)
       \<and> (\<not> hasLink d (FidoAddr_String (ToAddr (MakeBody h a msg)))
            \<and> point (ToAddr (MakeBody h a msg)) \<noteq> 0
            \<and> hasLink d (bossAddress (MakeBody h a msg))
            \<longrightarrow> (\<exists>l\<in>set (links d). Link_FtnAddress l = bossAddress (MakeBody h a msg)
                    \<and> Netmail_RouteVia row = Some (Link_ID l)))
       \<and> (\<not> hasLink d (FidoAddr_String (ToAddr (MakeBody h a msg)))
            \<and> \<not> (point (ToAddr (MakeBody h a msg)) \<noteq> 0
                  \<and> hasLink d (bossAddress (MakeBody h a msg)))
            \<and> list_ex (ruleApplies (MakeBody h a msg)) (routing d)
            \<longrightarrow> (\<exists>r\<in>set (routing d). ruleApplies (MakeBody h a msg) r
                    \<and> (\<forall>r'\<in>set (routing d). ruleApplies (MakeBody h a msg) r'
                            \<longrightarrow> Route_Nice r \<le> Route_Nice r')
                    \<and> Netmail_RouteVia row = Some (Route_RouteVia r)))
       \<and> (\<not> hasLink d (FidoAddr_String (ToAddr (MakeBody h a msg)))
            \<and> \<not> (point (ToAddr (MakeBody h a msg)) \<noteq> 0
                  \<and> hasLink d (bossAddress (MakeBody h a msg)))
            \<and> \<not> list_ex (ruleApplies (MakeBody h a msg)) (routing d)
            \<longrightarrow> findNetmailRoute d (MakeBody h a msg)
                  = (None, Some (Errorf (''no route found for netmail to ''
                                           @ FidoAddr_String (ToAddr (MakeBody h a msg))) None))
                \<and> Netmail_RouteVia row = None)))"
proof (intro conjI impI)
  show "fst (SaveMsg h cfg now a msg d c) = None \<longleftrightarrow> reachable d"
    using assms by (simp add: SaveMsg_def saveNetmailMessage_row)
next
  let ?m = "MakeBody h a msg"
  assume r: "reachable d"
  from saveNetmailMessage_saves [OF r, of h cfg now a msg c]
  obtain row where row: "saveNetmailMessage h cfg now a msg d c
                 = (None, a\<lparr>messageListValid := False\<rparr>,
                    d\<lparr>netmail := netmail d @ [row], netmailSeq := Netmail_ID row\<rparr>,
                    IncrementMessageCount 0 True c)"
    and via: "Netmail_RouteVia row = fst (findNetmailRoute d ?m)"
    and to: "Netmail_ToAddress row = FidoAddr_String (ToAddr ?m)"
    by blast
  from assms row have s: "SaveMsg h cfg now a msg d c
         = (None, a\<lparr>messageListValid := False\<rparr>,
            d\<lparr>netmail := netmail d @ [row], netmailSeq := Netmail_ID row\<rparr>,
            IncrementMessageCount 0 True c)"
    by (simp add: SaveMsg_def)
  have c1: "hasLink d (FidoAddr_String (ToAddr ?m)) \<longrightarrow> Netmail_RouteVia row = None"
    using route_direct [OF r, of ?m] via by simp
  have c2: "\<not> hasLink d (FidoAddr_String (ToAddr ?m)) \<and> point (ToAddr ?m) \<noteq> 0
          \<and> hasLink d (bossAddress ?m)
          \<longrightarrow> (\<exists>l\<in>set (links d). Link_FtnAddress l = bossAddress ?m
                  \<and> Netmail_RouteVia row = Some (Link_ID l))"
    using route_boss [OF r, of ?m] via by fastforce
  have c3: "\<not> hasLink d (FidoAddr_String (ToAddr ?m))
          \<and> \<not> (point (ToAddr ?m) \<noteq> 0 \<and> hasLink d (bossAddress ?m))
          \<and> list_ex (ruleApplies ?m) (routing d)
          \<longrightarrow> (\<exists>r\<in>set (routing d). ruleApplies ?m r
                  \<and> (\<forall>r'\<in>set (routing d). ruleApplies ?m r'
                          \<longrightarrow> Route_Nice r \<le> Route_Nice r')
                  \<and> Netmail_RouteVia row = Some (Route_RouteVia r))"
  proof
    assume a: "\<not> hasLink d (FidoAddr_String (ToAddr ?m))
          \<and> \<not> (point (ToAddr ?m) \<noteq> 0 \<and> hasLink d (bossAddress ?m))
          \<and> list_ex (ruleApplies ?m) (routing d)"
    then obtain r' where "r' \<in> set (routing d)" "ruleApplies ?m r'"
      "\<forall>r''\<in>set (routing d). ruleApplies ?m r'' \<longrightarrow> Route_Nice r' \<le> Route_Nice r''"
      "findNetmailRoute d ?m = (Some (Route_RouteVia r'), None)"
      using route_rule [OF r, of ?m] unfolding routeMatches_ruleApplies by blast
    then show "\<exists>r\<in>set (routing d). ruleApplies ?m r
                  \<and> (\<forall>r'\<in>set (routing d). ruleApplies ?m r'
                          \<longrightarrow> Route_Nice r \<le> Route_Nice r')
                  \<and> Netmail_RouteVia row = Some (Route_RouteVia r)"
      using via by auto
  qed
  have c4: "\<not> hasLink d (FidoAddr_String (ToAddr ?m))
          \<and> \<not> (point (ToAddr ?m) \<noteq> 0 \<and> hasLink d (bossAddress ?m))
          \<and> \<not> list_ex (ruleApplies ?m) (routing d)
          \<longrightarrow> findNetmailRoute d ?m
                = (None, Some (Errorf (''no route found for netmail to ''
                                         @ FidoAddr_String (ToAddr ?m)) None))
              \<and> Netmail_RouteVia row = None"
    using route_none [OF r, of ?m] via unfolding routeMatches_ruleApplies by simp
  from s to c1 c2 c3 c4 show "\<exists>row.
     SaveMsg h cfg now a msg d c
       = (None, a\<lparr>messageListValid := False\<rparr>,
          d\<lparr>netmail := netmail d @ [row], netmailSeq := Netmail_ID row\<rparr>,
          IncrementMessageCount 0 True c)
     \<and> Netmail_ToAddress row = FidoAddr_String (ToAddr (MakeBody h a msg))
     \<and> (hasLink d (FidoAddr_String (ToAddr (MakeBody h a msg)))
          \<longrightarrow> Netmail_RouteVia row = None)
     \<and> (\<not> hasLink d (FidoAddr_String (ToAddr (MakeBody h a msg)))
          \<and> point (ToAddr (MakeBody h a msg)) \<noteq> 0
          \<and> hasLink d (bossAddress (MakeBody h a msg))
          \<longrightarrow> (\<exists>l\<in>set (links d). Link_FtnAddress l = bossAddress (MakeBody h a msg)
                  \<and> Netmail_RouteVia row = Some (Link_ID l)))
     \<and> (\<not> hasLink d (FidoAddr_String (ToAddr (MakeBody h a msg)))
          \<and> \<not> (point (ToAddr (MakeBody h a msg)) \<noteq> 0
                \<and> hasLink d (bossAddress (MakeBody h a msg)))
          \<and> list_ex (ruleApplies (MakeBody h a msg)) (routing d)
          \<longrightarrow> (\<exists>r\<in>set (routing d). ruleApplies (MakeBody h a msg) r
                  \<and> (\<forall>r'\<in>set (routing d). ruleApplies (MakeBody h a msg) r'
                          \<longrightarrow> Route_Nice r \<le> Route_Nice r')
                  \<and> Netmail_RouteVia row = Some (Route_RouteVia r)))
     \<and> (\<not> hasLink d (FidoAddr_String (ToAddr (MakeBody h a msg)))
          \<and> \<not> (point (ToAddr (MakeBody h a msg)) \<noteq> 0
                \<and> hasLink d (bossAddress (MakeBody h a msg)))
          \<and> \<not> list_ex (ruleApplies (MakeBody h a msg)) (routing d)
          \<longrightarrow> findNetmailRoute d (MakeBody h a msg)
                = (None, Some (Errorf (''no route found for netmail to ''
                                         @ FidoAddr_String (ToAddr (MakeBody h a msg))) None))
              \<and> Netmail_RouteVia row = None)"
    by blast
qed

lemma fixture_addresses:
  "FidoAddr_String (AddrFromNum 2 5020 100 0) = ''2:5020/100''"
  "FidoAddr_String (AddrFromNum 2 5020 100 7) = ''2:5020/100.7''"
  "FidoAddr_String (AddrFromNum 2 5020 200 0) = ''2:5020/200''"
  "FidoAddr_String (AddrFromNum 2 5020 300 0) = ''2:5020/300''"
  "FidoAddr_String (AddrFromNum 2 5020 1 0) = ''2:5020/1''"
  by (simp_all add: FidoAddr_String_def AddrFromNum_def)

lemma saved_route:
  assumes "\<exists>row. R = (None, a', d\<lparr>netmail := netmail d @ [row], netmailSeq := Netmail_ID row\<rparr>, c')
                 \<and> P row"
  shows "fst R = None \<and> butlast (netmail (fst (snd (snd R)))) = netmail d
         \<and> P (last (netmail (fst (snd (snd R)))))"
  using assms by auto

text \<open>
  The database \<open>routedDB\<close> has a link with the address 2:5020/100 (id 3), a rule with
  \<^verbatim>\<open>nice\<close> 5 for the destination 2:5020/200 (via 4) and a rule with \<^verbatim>\<open>nice\<close> 10 whose
  fields are all \<^verbatim>\<open>'*'\<close> (via 9). A message to 2:5020/100 is stored with a null route,
  one to 2:5020/100.7 with the route 3, one to 2:5020/200 with the route 4, and one to
  2:5020/300, to which the rule with the lower \<^verbatim>\<open>nice\<close> does not apply, with the route
  9. In the database without rows no route is found, and the message is stored with a
  null route.
\<close>

theorem SaveMsg_netmail_route_witness:
  "Netmail_RouteVia (last (netmail (fst (snd (snd
      (SaveMsg plainHelpers utf8Config 0 netmailArea
         (mailTo (AddrFromNum 2 5020 100 0) []) routedDB noCache)))))) = None
   \<and> Netmail_RouteVia (last (netmail (fst (snd (snd
      (SaveMsg plainHelpers utf8Config 0 netmailArea
         (mailTo (AddrFromNum 2 5020 100 7) []) routedDB noCache)))))) = Some 3
   \<and> Netmail_RouteVia (last (netmail (fst (snd (snd
      (SaveMsg plainHelpers utf8Config 0 netmailArea
         (mailTo (AddrFromNum 2 5020 200 0) []) routedDB noCache)))))) = Some 4
   \<and> Netmail_RouteVia (last (netmail (fst (snd (snd
      (SaveMsg plainHelpers utf8Config 0 netmailArea
         (mailTo (AddrFromNum 2 5020 300 0) []) routedDB noCache)))))) = Some 9
   \<and> fst (SaveMsg plainHelpers utf8Config 0 netmailArea
         (mailTo (AddrFromNum 2 5020 200 0) []) emptyDB noCache) = None
   \<and> butlast (netmail (fst (snd (snd
      (SaveMsg plainHelpers utf8Config 0 netmailArea
         (mailTo (AddrFromNum 2 5020 200 0) []) emptyDB noCache))))) = []
   \<and> Netmail_ToAddress (last (netmail (fst (snd (snd
      (SaveMsg plainHelpers utf8Config 0 netmailArea
         (mailTo (AddrFromNum 2 5020 200 0) []) emptyDB noCache)))))) = ''2:5020/200''
   \<and> Netmail_RouteVia (last (netmail (fst (snd (snd
      (SaveMsg plainHelpers utf8Config 0 netmailArea
         (mailTo (AddrFromNum 2 5020 200 0) []) emptyDB noCache)))))) = None"
proof -
  have t: "areaType netmailArea = EchoAreaTypeNetmail"
    by (simp add: netmailArea_record)
  have r: "reachable routedDB" "reachable emptyDB"
    by (simp_all add: routedDB_def emptyDB_def)
  have m: "MakeBody plainHelpers netmailArea msg = msg" for msg
    by (simp add: plainHelpers_def)
  have direct: "hasLink routedDB ''2:5020/100''"
    "\<not> hasLink routedDB ''2:5020/100.7''" "\<not> hasLink routedDB ''2:5020/200''"
    "\<not> hasLink routedDB ''2:5020/300''" "\<not> hasLink emptyDB ''2:5020/200''"
    by (simp_all add: hasLink_def routedDB_def emptyDB_def)
  have boss: "bossAddress (mailTo (AddrFromNum 2 5020 100 7) []) = ''2:5020/100''"
    "point (ToAddr (mailTo (AddrFromNum 2 5020 100 7) [])) \<noteq> 0"
    "point (ToAddr (mailTo (AddrFromNum 2 5020 200 0) [])) = 0"
    "point (ToAddr (mailTo (AddrFromNum 2 5020 300 0) [])) = 0"
    by (simp_all add: bossAddress_def mailTo_def AddrFromNum_def FidoAddr_String_def)
  have to: "ToAddr (mailTo addr []) = addr" for addr
    by (simp add: mailTo_def)
  have rules: "list_ex (ruleApplies (mailTo (AddrFromNum 2 5020 200 0) [])) (routing routedDB)"
    "list_ex (ruleApplies (mailTo (AddrFromNum 2 5020 300 0) [])) (routing routedDB)"
    "\<not> list_ex (ruleApplies (mailTo (AddrFromNum 2 5020 200 0) [])) (routing emptyDB)"
    by (simp_all add: ruleApplies_def routedDB_def emptyDB_def mailTo_def fixture_addresses)
  have c1: "Netmail_RouteVia (last (netmail (fst (snd (snd
      (SaveMsg plainHelpers utf8Config 0 netmailArea
         (mailTo (AddrFromNum 2 5020 100 0) []) routedDB noCache)))))) = None"
    using saved_route [OF SaveMsg_netmail_route [OF t, THEN conjunct2, rule_format, OF r(1),
          of plainHelpers utf8Config 0
          "mailTo (AddrFromNum 2 5020 100 0) []" noCache]] direct
    by (simp add: m to fixture_addresses)
  have c2: "Netmail_RouteVia (last (netmail (fst (snd (snd
      (SaveMsg plainHelpers utf8Config 0 netmailArea
         (mailTo (AddrFromNum 2 5020 100 7) []) routedDB noCache)))))) = Some 3"
    using saved_route [OF SaveMsg_netmail_route [OF t, THEN conjunct2, rule_format, OF r(1),
          of plainHelpers utf8Config 0
          "mailTo (AddrFromNum 2 5020 100 7) []" noCache]] direct boss
    by (simp add: m to fixture_addresses) (simp add: routedDB_def emptyDB_def)
  have c3: "Netmail_RouteVia (last (netmail (fst (snd (snd
      (SaveMsg plainHelpers utf8Config 0 netmailArea
         (mailTo (AddrFromNum 2 5020 200 0) []) routedDB noCache)))))) = Some 4"
    using saved_route [OF SaveMsg_netmail_route [OF t, THEN conjunct2, rule_format, OF r(1),
          of plainHelpers utf8Config 0
          "mailTo (AddrFromNum 2 5020 200 0) []" noCache]] direct boss rules
    by (simp add: m to fixture_addresses)
      (auto simp: routedDB_def emptyDB_def ruleApplies_def mailTo_def fixture_addresses)
  have c3': "Netmail_RouteVia (last (netmail (fst (snd (snd
      (SaveMsg plainHelpers utf8Config 0 netmailArea
         (mailTo (AddrFromNum 2 5020 300 0) []) routedDB noCache)))))) = Some 9"
    using saved_route [OF SaveMsg_netmail_route [OF t, THEN conjunct2, rule_format, OF r(1),
          of plainHelpers utf8Config 0
          "mailTo (AddrFromNum 2 5020 300 0) []" noCache]] direct boss rules
    by (simp add: m to fixture_addresses)
      (auto simp: routedDB_def emptyDB_def ruleApplies_def mailTo_def fixture_addresses)
  have c4: "fst (SaveMsg plainHelpers utf8Config 0 netmailArea
         (mailTo (AddrFromNum 2 5020 200 0) []) emptyDB noCache) = None
   \<and> butlast (netmail (fst (snd (snd
      (SaveMsg plainHelpers utf8Config 0 netmailArea
         (mailTo (AddrFromNum 2 5020 200 0) []) emptyDB noCache))))) = []
   \<and> Netmail_ToAddress (last (netmail (fst (snd (snd
      (SaveMsg plainHelpers utf8Config 0 netmailArea
         (mailTo (AddrFromNum 2 5020 200 0) []) emptyDB noCache)))))) = ''2:5020/200''
   \<and> Netmail_RouteVia (last (netmail (fst (snd (snd
      (SaveMsg plainHelpers utf8Config 0 netmailArea
         (mailTo (AddrFromNum 2 5020 200 0) []) emptyDB noCache)))))) = None"
    using saved_route [OF SaveMsg_netmail_route [OF t, THEN conjunct2, rule_format, OF r(2),
          of plainHelpers utf8Config 0
          "mailTo (AddrFromNum 2 5020 200 0) []" noCache]] direct boss rules
    by (simp add: m to fixture_addresses) (simp add: emptyDB_def)
  from c1 c2 c3 c3' c4 show ?thesis by blast
qed

section \<open>The MSGID kludge\<close>

lemma delete_MSGID_overrideChrs:
  "AList.delete ''MSGID:'' (Kludges (overrideChrs cfg m))
   = (if Chrs_JnodeDefault cfg \<noteq> []
      then AList.update ''CHRS:'' (Chrs_JnodeDefault cfg)
             (AList.delete ''CHRS'' (AList.delete ''CHRS:'' (AList.delete ''MSGID:'' (Kludges m))))
      else AList.delete ''MSGID:'' (Kludges m))"
  by (simp add: overrideChrs_def delete_update delete_twist)

lemma mapIndex_overrideChrs:
  "mapIndex (Kludges (overrideChrs cfg m)) ''MSGID:'' = mapIndex (Kludges m) ''MSGID:''"
  by (simp add: overrideChrs_def mapIndex_def update_conv' delete_conv')

lemma same_but_Kludges:
  fixes p q :: Message
  assumes "p\<lparr>Kludges := []\<rparr> = q\<lparr>Kludges := []\<rparr>"
  shows "From p = From q" "To p = To q" "FromAddr p = FromAddr q" "ToAddr p = ToAddr q"
    "Subject p = Subject q" "Body p = Body q" "DateWritten p = DateWritten q"
    "Attrs p = Attrs q"
proof -
  have f: "f p = f q" if "\<And>m. f (m\<lparr>Kludges := []\<rparr>) = f m" for f :: "Message \<Rightarrow> 'b"
    using assms that by metis
  show "From p = From q" "To p = To q" "FromAddr p = FromAddr q" "ToAddr p = ToAddr q"
    "Subject p = Subject q" "Body p = Body q" "DateWritten p = DateWritten q"
    "Attrs p = Attrs q"
    by (rule f, simp)+
qed

lemma findNetmailRoute_same:
  fixes p q :: Message
  assumes "p\<lparr>Kludges := []\<rparr> = q\<lparr>Kludges := []\<rparr>"
  shows "findNetmailRoute d p = findNetmailRoute d q"
proof -
  have "findNetmailRoute d (p\<lparr>Kludges := []\<rparr>) = findNetmailRoute d (q\<lparr>Kludges := []\<rparr>)"
    using assms by simp
  then show ?thesis by simp
qed

lemma saveEchomailMessage_row:
  assumes "saveEchomailMessage h cfg a msg d c = (None, a', d', c')"
  shows "echomail d' = echomail d @
       [\<lparr>Echomail_ID = nextID (echomailSeq d) (map Echomail_ID (echomail d)),
         Echomail_EchoareaID = areaID a,
         Echomail_FromName = From (MakeBody h a msg),
         Echomail_ToName = To (MakeBody h a msg),
         Echomail_FromFtnAddr = FidoAddr_String (FromAddr (MakeBody h a msg)),
         Echomail_Date = ToUnixTime (DateWritten (MakeBody h a msg)),
         Echomail_Subject = Subject (MakeBody h a msg),
         Echomail_Message =
           kludgeLines (AList.delete ''MSGID:''
                          (Kludges (overrideChrs cfg (MakeBody h a msg))))
           @ Body (MakeBody h a msg),
         Echomail_SeenBy = [],
         Echomail_Path = [],
         Echomail_MsgID = mapIndex (Kludges (MakeBody h a msg)) ''MSGID:''\<rparr>]"
  using assms
  by (auto simp: saveEchomailMessage_def Let_def queueEchomailForSubscribers_def gormFind_def
      kludgeLines_delete_MSGID mapIndex_overrideChrs split: if_splits)

text \<open>
  C9. The block of kludge lines that the save functions write is the block of the
  kludges without \<^verbatim>\<open>MSGID:\<close>. On a netmail area, two messages that \<^verbatim>\<open>MakeBody\<close>
  leaves equal except for the \<^verbatim>\<open>MSGID:\<close> kludge have the same outcome of \<^verbatim>\<open>SaveMsg\<close>,
  the same row included: nothing of the kludge is stored. On any other area a
  successful \<^verbatim>\<open>SaveMsg\<close> appends a row whose column \<^verbatim>\<open>msgid\<close> is the value of the
  \<^verbatim>\<open>MSGID:\<close> kludge (empty when there is none) and whose text has the kludge block
  without it.
\<close>

theorem MSGID_not_in_netmail_but_in_echomail:
  "kludgeLines (AList.delete ''MSGID:'' ks) = kludgeLines ks
   \<and> (areaType a = EchoAreaTypeNetmail
        \<and> AList.delete ''MSGID:'' (Kludges (MakeBody h a m1))
            = AList.delete ''MSGID:'' (Kludges (MakeBody h a m2))
        \<and> (MakeBody h a m1)\<lparr>Kludges := []\<rparr> = (MakeBody h a m2)\<lparr>Kludges := []\<rparr>
        \<longrightarrow> SaveMsg h cfg now a m1 d c = SaveMsg h cfg now a m2 d c)
   \<and> (areaType a \<noteq> EchoAreaTypeNetmail
        \<and> SaveMsg h cfg now a msg d c = (None, a', d', c')
        \<longrightarrow> butlast (echomail d') = echomail d \<and> echomail d' \<noteq> []
            \<and> Echomail_MsgID (last (echomail d'))
                = mapIndex (Kludges (MakeBody h a msg)) ''MSGID:''
            \<and> Echomail_Message (last (echomail d'))
                = kludgeLines (AList.delete ''MSGID:''
                                 (Kludges (overrideChrs cfg (MakeBody h a msg))))
                  @ Body (MakeBody h a msg))"
proof (intro conjI impI)
  show "kludgeLines (AList.delete ''MSGID:'' ks) = kludgeLines ks"
    by (rule kludgeLines_delete_MSGID)
next
  assume a: "areaType a = EchoAreaTypeNetmail
        \<and> AList.delete ''MSGID:'' (Kludges (MakeBody h a m1))
            = AList.delete ''MSGID:'' (Kludges (MakeBody h a m2))
        \<and> (MakeBody h a m1)\<lparr>Kludges := []\<rparr> = (MakeBody h a m2)\<lparr>Kludges := []\<rparr>"
  then have k: "AList.delete ''MSGID:'' (Kludges (overrideChrs cfg (MakeBody h a m1)))
      = AList.delete ''MSGID:'' (Kludges (overrideChrs cfg (MakeBody h a m2)))"
    by (simp add: delete_MSGID_overrideChrs)
  from a have s: "(MakeBody h a m1)\<lparr>Kludges := []\<rparr> = (MakeBody h a m2)\<lparr>Kludges := []\<rparr>"
    by simp
  show "SaveMsg h cfg now a m1 d c = SaveMsg h cfg now a m2 d c"
    using a k same_but_Kludges [OF s] findNetmailRoute_same [OF s]
    by (simp add: SaveMsg_def saveNetmailMessage_row)
next
  assume a: "areaType a \<noteq> EchoAreaTypeNetmail \<and> SaveMsg h cfg now a msg d c = (None, a', d', c')"
  then have "saveEchomailMessage h cfg a msg d c = (None, a', d', c')"
    by (auto simp: SaveMsg_def split: if_splits)
  note row = saveEchomailMessage_row [OF this]
  show "butlast (echomail d') = echomail d" "echomail d' \<noteq> []"
    "Echomail_MsgID (last (echomail d')) = mapIndex (Kludges (MakeBody h a msg)) ''MSGID:''"
    "Echomail_Message (last (echomail d'))
       = kludgeLines (AList.delete ''MSGID:'' (Kludges (overrideChrs cfg (MakeBody h a msg))))
         @ Body (MakeBody h a msg)"
    by (simp_all add: row)
qed


theorem MSGID_not_in_netmail_but_in_echomail_witness:
  "SaveMsg plainHelpers utf8Config 0 netmailArea
      (mailTo (AddrFromNum 2 5020 100 7)
         [(''MSGID:'', ''2:5020/1 5f3a9c01''), (''PID:'', ''gossiped'')]) routedDB noCache
     = SaveMsg plainHelpers utf8Config 0 netmailArea
         (mailTo (AddrFromNum 2 5020 100 7) [(''PID:'', ''gossiped'')]) routedDB noCache
   \<and> Echomail_MsgID (last (echomail (fst (snd (snd
        (SaveMsg plainHelpers utf8Config 0 echoArea
           (mailTo (AddrFromNum 0 0 0 0)
              [(''MSGID:'', ''2:5020/1 5f3a9c01''), (''PID:'', ''gossiped'')])
           emptyDB noCache)))))) = ''2:5020/1 5f3a9c01''
   \<and> Echomail_Message (last (echomail (fst (snd (snd
        (SaveMsg plainHelpers utf8Config 0 echoArea
           (mailTo (AddrFromNum 0 0 0 0)
              [(''MSGID:'', ''2:5020/1 5f3a9c01''), (''PID:'', ''gossiped'')])
           emptyDB noCache)))))) = [SOH] @ ''PID: gossiped'' @ [CR] @ ''hi''"
proof -
  let ?m1 = "mailTo (AddrFromNum 2 5020 100 7)
         [(''MSGID:'', ''2:5020/1 5f3a9c01''), (''PID:'', ''gossiped'')]"
  let ?m2 = "mailTo (AddrFromNum 2 5020 100 7) [(''PID:'', ''gossiped'')]"
  let ?e = "mailTo (AddrFromNum 0 0 0 0)
              [(''MSGID:'', ''2:5020/1 5f3a9c01''), (''PID:'', ''gossiped'')]"
  let ?R = "SaveMsg plainHelpers utf8Config 0 echoArea ?e emptyDB noCache"
  have m: "MakeBody plainHelpers ar msg = msg" for ar msg
    by (simp add: plainHelpers_def)
  have n: "areaType netmailArea = EchoAreaTypeNetmail"
    "areaType echoArea \<noteq> EchoAreaTypeNetmail"
    by (simp_all add: netmailArea_record echoArea_record)
  have same: "AList.delete ''MSGID:'' (Kludges ?m1) = AList.delete ''MSGID:'' (Kludges ?m2)"
    "?m1\<lparr>Kludges := []\<rparr> = ?m2\<lparr>Kludges := []\<rparr>"
    by (simp_all add: mailTo_def AList.delete_eq)
  have saved: "?R = (None, fst (snd ?R), fst (snd (snd ?R)), snd (snd (snd ?R)))"
    by (simp add: SaveMsg_def saveEchomailMessage_def echoArea_record emptyDB_def Let_def)
  have k: "Kludges (overrideChrs utf8Config ?e) = Kludges ?e"
    "Kludges ?e = [(''MSGID:'', ''2:5020/1 5f3a9c01''), (''PID:'', ''gossiped'')]"
    "Body ?e = ''hi''"
    by (simp_all add: overrideChrs_def utf8Config_def mailTo_def)
  have c1: "SaveMsg plainHelpers utf8Config 0 netmailArea ?m1 routedDB noCache
     = SaveMsg plainHelpers utf8Config 0 netmailArea ?m2 routedDB noCache"
    using MSGID_not_in_netmail_but_in_echomail
      [of "[]" netmailArea plainHelpers ?m1 ?m2 utf8Config 0 routedDB noCache] n(1) same
    by (simp add: m)
  have c2: "Echomail_MsgID (last (echomail (fst (snd (snd ?R))))) = ''2:5020/1 5f3a9c01''
    \<and> Echomail_Message (last (echomail (fst (snd (snd ?R)))))
        = [SOH] @ ''PID: gossiped'' @ [CR] @ ''hi''"
    using MSGID_not_in_netmail_but_in_echomail
      [of "[]" echoArea plainHelpers _ _ utf8Config 0 emptyDB noCache ?e
          "fst (snd ?R)" "fst (snd (snd ?R))" "snd (snd (snd ?R))"] n(2) saved
    by (simp add: m k mapIndex_def AList.delete_eq)
  from c1 c2 show ?thesis by blast
qed

section \<open>Properties of the quote engine\<close>

declare skipWhile.simps [simp del] scanQuote.simps [simp del] findQuote.simps [simp del]
  countAlpha.simps [simp del] buildQuote.simps [simp del]

lemma QuoteStops_runes: "ToRunes QuoteStops = [0x3C, 0x22, 0x27, 0x2D]"
  by (simp add: QuoteStops_def)

lemma isStop:
  "ContainsRune QuoteStops r \<longleftrightarrow> r = 0x3C \<or> r = 0x22 \<or> r = 0x27 \<or> r = 0x2D"
  by (auto simp: ContainsRune_def QuoteStops_runes)

lemma skipWhile_takeWhile:
  "skipWhile cond runes i = i + length (takeWhile cond (drop i runes))"
proof (induction cond runes i rule: skipWhile.induct)
  case (1 cond runes i)
  show ?case
  proof (cases "i < length runes \<and> cond (runes ! i)")
    case True
    then have d: "drop i runes = runes ! i # drop (Suc i) runes"
      by (simp add: Cons_nth_drop_Suc)
    from True have "skipWhile cond runes i = skipWhile cond runes (i + 1)"
      by (subst skipWhile.simps) simp
    also have "\<dots> = (i + 1) + length (takeWhile cond (drop (i + 1) runes))"
      using 1 True by simp
    finally show ?thesis
      using True by (simp add: d)
  next
    case False
    then have s: "skipWhile cond runes i = i"
      by (subst skipWhile.simps) auto
    show ?thesis
    proof (cases "i < length runes")
      case True
      with False have "\<not> cond (runes ! i)" by simp
      moreover from True have "drop i runes = runes ! i # drop (Suc i) runes"
        by (simp add: Cons_nth_drop_Suc)
      ultimately show ?thesis by (simp add: s)
    next
      case False
      then show ?thesis by (simp add: s)
    qed
  qed
qed

lemma scanQuote_quoteBeforeStop:
  "scanQuote runes endPtr ptr = quoteBeforeStop (drop ptr (take endPtr runes))"
proof (induction runes endPtr ptr rule: scanQuote.induct)
  case (1 runes endPtr ptr)
  show ?case
  proof (cases "ptr < length runes \<and> ptr < endPtr")
    case True
    then have "ptr < length (take endPtr runes)" by simp
    then have d: "drop ptr (take endPtr runes)
        = runes ! ptr # drop (Suc ptr) (take endPtr runes)"
      using True by (metis Cons_nth_drop_Suc nth_take)
    show ?thesis
    proof (cases "IsQuoteChar (runes ! ptr)")
      case q: True
      with True show ?thesis
        by (subst scanQuote.simps) (simp add: d IsQuoteChar_def)
    next
      case q: False
      show ?thesis
      proof (cases "IsControl (runes ! ptr) \<or> ContainsRune QuoteStops (runes ! ptr)
                    \<or> IsSpace (runes ! ptr)")
        case s: True
        with True q show ?thesis
          by (subst scanQuote.simps) (auto simp: d IsQuoteChar_def)
      next
        case s: False
        with True q have "scanQuote runes endPtr ptr = scanQuote runes endPtr (ptr + 1)"
          by (subst scanQuote.simps) simp
        also have "\<dots> = quoteBeforeStop (drop (ptr + 1) (take endPtr runes))"
          using 1 True q s by simp
        finally show ?thesis
          using q s by (simp add: d IsQuoteChar_def)
      qed
    qed
  next
    case False
    then have "drop ptr (take endPtr runes) = []" by auto
    moreover from False have "\<not> scanQuote runes endPtr ptr"
      by (subst scanQuote.simps) auto
    ultimately show ?thesis by simp
  qed
qed

lemma dropWhile_take:
  "dropWhile P (take n xs) = drop (length (takeWhile P xs)) (take n xs)"
proof (induction xs arbitrary: n)
  case Nil
  then show ?case by simp
next
  case (Cons x xs)
  then show ?case by (cases n) simp_all
qed

lemma IsSpace_or_LF: "(\<lambda>r. IsSpace r \<or> r = 0x0A) = IsSpace"
  by (rule ext) (auto simp: IsSpace_def)

lemma ToRunes_Nil_iff: "ToRunes line = [] \<longleftrightarrow> line = []"
  by (cases line) (simp_all split: prod.splits)

lemma IsQuoteBasic_window:
  "IsQuoteBasic line = quoteInWindowFromStart (ToRunes line)"
proof (cases "line = []")
  case True
  then show ?thesis
    by (simp add: IsQuoteBasic_def quoteInWindowFromStart_def)
next
  case False
  define rs where "rs = ToRunes line"
  define e where "e = (if length rs > 11 then 11 else length rs)"
  define p where "p = length (takeWhile IsSpace rs)"
  have t: "take e rs = take 11 rs"
    by (simp add: e_def)
  have spec: "quoteInWindowFromStart rs = quoteBeforeStop (drop p (take e rs))"
    unfolding t by (simp add: quoteInWindowFromStart_def dropWhile_take p_def)
  have sk: "skipWhile (\<lambda>r. IsSpace r \<or> r = 0x0A) rs 0 = p"
    by (simp add: skipWhile_takeWhile IsSpace_or_LF p_def)
  have code: "IsQuoteBasic line =
      (if p \<ge> length rs \<or> p \<ge> e then False
       else if IsQuoteChar (rs ! p) then True else scanQuote rs e p)"
    using False
    by (simp add: IsQuoteBasic_def Let_def rs_def [symmetric] e_def [symmetric] sk)
  show ?thesis
  proof (cases "p \<ge> length rs \<or> p \<ge> e")
    case True
    then have "drop p (take e rs) = []" by auto
    with True show ?thesis
      unfolding rs_def [symmetric] spec code by simp
  next
    case inside: False
    have "scanQuote rs e p" if "IsQuoteChar (rs ! p)"
      using inside that by (subst scanQuote.simps) auto
    then have "IsQuoteBasic line = scanQuote rs e p"
      unfolding code using inside by auto
    then show ?thesis
      unfolding rs_def [symmetric] spec by (simp only: scanQuote_quoteBeforeStop)
  qed
qed

lemma quoteBeforeStop_has_quote: "quoteBeforeStop rs \<Longrightarrow> 0x3E \<in> set rs"
  by (induction rs) (auto split: if_splits)

lemma no_quote_in_window:
  assumes "11 \<le> length (takeWhile (\<lambda>r. r \<noteq> 0x3E) rs)"
  shows "\<not> quoteInWindowFromStart rs"
proof
  assume "quoteInWindowFromStart rs"
  then have "0x3E \<in> set (dropWhile IsSpace (take 11 rs))"
    unfolding quoteInWindowFromStart_def by (rule quoteBeforeStop_has_quote)
  then have "0x3E \<in> set (take 11 rs)"
    by (rule set_dropWhileD)
  moreover have "take 11 rs = take 11 (takeWhile (\<lambda>r. r \<noteq> 0x3E) rs)"
    using assms
    by (metis takeWhile_dropWhile_id take_append diff_is_0_eq take_0 append_Nil2)
  ultimately have "0x3E \<in> set (takeWhile (\<lambda>r. r \<noteq> 0x3E) rs)"
    by (metis in_set_takeD)
  then show False
    by (auto dest: set_takeWhileD)
qed


lemma EncodeRune_ascii: "r \<le> 0x7F \<Longrightarrow> EncodeRune r = [char_of r]"
  by (simp add: EncodeRune_def)

lemma IsQuoteBasic_quoted_text: "IsQuoteBasic ''> quoted text''"
  by (simp add: IsQuoteBasic_window quoteInWindowFromStart_def IsSpace_def)

lemma IsQuoteBasic_plain_text: "\<not> IsQuoteBasic ''plain text''"
  by (simp add: IsQuoteBasic_window quoteInWindowFromStart_def IsSpace_def IsControl_def isStop)

lemma IsQuoteBasic_after_11_spaces: "\<not> IsQuoteBasic ''           >''"
  by (simp add: IsQuoteBasic_window quoteInWindowFromStart_def IsSpace_def)

lemma claimed_after_11_spaces: "quoteInWindowAfterSkip (ToRunes ''           >'')"
  by (simp add: quoteInWindowAfterSkip_def IsSpace_def)

text \<open>
  C4, as the claim states it, fails: the window of 11 runes is counted from the start of
  the line, not from the first rune after the leading white space. After 11 spaces a
  \<^verbatim>\<open>'>'\<close> is the first rune of the window the claim describes, and \<^verbatim>\<open>IsQuoteBasic\<close>
  returns false.
\<close>

theorem IsQuoteBasic_window_after_skip_fails:
  "\<not> IsQuoteBasic ''           >'' \<and> quoteInWindowAfterSkip (ToRunes ''           >'')"
  using IsQuoteBasic_after_11_spaces claimed_after_11_spaces by simp

text \<open>
  C4, amended. \<^verbatim>\<open>IsQuoteBasic\<close> looks at the first 11 runes of the line, leading white
  space included: it skips the white space at the start of that window and returns true
  exactly when a \<^verbatim>\<open>'>'\<close> follows in the window before any control character, white
  space or stop character. \<^verbatim>\<open>IsQuoteBasic("> quoted text")\<close> is true,
  \<^verbatim>\<open>IsQuoteBasic("plain text")\<close> is false, and \<^verbatim>\<open>IsQuoteBasic\<close> is false for every
  line with 11 or more runes before its first \<^verbatim>\<open>'>'\<close>.
\<close>

theorem IsQuoteBasic_scan_window:
  "IsQuoteBasic line = quoteInWindowFromStart (ToRunes line)
   \<and> IsQuoteBasic ''> quoted text''
   \<and> \<not> IsQuoteBasic ''plain text''
   \<and> (11 \<le> length (takeWhile (\<lambda>r. r \<noteq> 0x3E) (ToRunes line)) \<longrightarrow> \<not> IsQuoteBasic line)"
  using IsQuoteBasic_window [of line] IsQuoteBasic_quoted_text IsQuoteBasic_plain_text
    no_quote_in_window [of "ToRunes line"]
  by simp

theorem IsQuoteBasic_scan_window_witness:
  "IsQuoteBasic ''Bob> hello'' \<and> \<not> IsQuoteBasic ''Alphabetical> x''"
proof -
  have "11 \<le> length (takeWhile (\<lambda>r. r \<noteq> 0x3E) (ToRunes ''Alphabetical> x''))"
    by simp
  moreover have "quoteInWindowFromStart (ToRunes ''Bob> hello'')"
    by (simp add: quoteInWindowFromStart_def IsSpace_def IsControl_def isStop)
  ultimately show ?thesis
    using IsQuoteBasic_scan_window [of "''Alphabetical> x''"]
      IsQuoteBasic_scan_window [of "''Bob> hello''"]
    by (simp add: quoteInWindowFromStart_def IsSpace_def IsControl_def isStop)
qed

lemma IsQuoteEnhanced_Bob: "IsQuoteEnhanced letters ''Bob> hello'' []"
proof -
  let ?rs = "[66, 111, 98, 62, 32, 104, 101, 108, 108, 111] :: rune list"
  have r: "ToRunes ''Bob> hello'' = ?rs" by simp
  have s: "skipWhile IsSpace ?rs 0 = 0"
    by (simp add: skipWhile_takeWhile IsSpace_def)
  have f: "findQuote ?rs 0 = Searched True 4"
    by (simp add: findQuote.simps isStop)
  have b: "\<not> IsQuoteBasic (FromRunes [32, 104, 101, 108, 108, 111])"
    by (simp add: FromRunes_def EncodeRune_ascii IsQuoteBasic_window quoteInWindowFromStart_def
        IsSpace_def IsControl_def isStop)
  have a: "countAlpha letters ?rs 0 3 = 3"
    by (simp add: countAlpha.simps IsLetter_def)
  show ?thesis
    by (simp add: IsQuoteEnhanced_def r s f b a)
qed

lemma Alphabet_context:
  "IsQuoteEnhanced letters ''Alphabet> x'' prevLines = checkPreviousLinesContext prevLines"
proof -
  let ?rs = "[65, 108, 112, 104, 97, 98, 101, 116, 62, 32, 120] :: rune list"
  have r: "ToRunes ''Alphabet> x'' = ?rs" by simp
  have s: "skipWhile IsSpace ?rs 0 = 0"
    by (simp add: skipWhile_takeWhile IsSpace_def)
  have f: "findQuote ?rs 0 = Searched True 9"
    by (simp add: findQuote.simps isStop)
  have b: "\<not> IsQuoteBasic (FromRunes [32, 120])"
    by (simp add: FromRunes_def EncodeRune_ascii IsQuoteBasic_window quoteInWindowFromStart_def
        IsSpace_def IsControl_def isStop)
  have a: "countAlpha letters ?rs 0 8 = 8"
    by (simp add: countAlpha.simps IsLetter_def)
  show ?thesis
    by (simp add: IsQuoteEnhanced_def r s f b a)
qed

lemma context_open_bracket: "\<not> checkPreviousLinesContext [''<abc'']"
proof -
  have "\<not> IsQuoteBasic ''<abc''"
    by (simp add: IsQuoteBasic_window quoteInWindowFromStart_def IsSpace_def IsControl_def isStop)
  then show ?thesis
    by (simp add: checkPreviousLinesContext_def LastIndexByte_def LF_def CR_def SOH_def
        ContainsByte_def)
qed

text \<open>
  C3, as the claim states it, fails in its second half: with four or more letters before
  the \<^verbatim>\<open>'>'\<close> the decision is left to \<^verbatim>\<open>checkPreviousLinesContext\<close>, which returns
  true for an empty list of previous lines. The line is ASCII, so the table of letters
  beyond Latin-1 is not consulted.
\<close>

theorem IsQuoteEnhanced_Alphabet_is_quoted:
  "IsQuoteEnhanced (\<lambda>r. False) ''Alphabet> x'' []"
  by (simp add: Alphabet_context checkPreviousLinesContext_def)

text \<open>
  C3, amended. \<^verbatim>\<open>IsQuoteEnhanced("Bob> hello", [])\<close> is true, and
  \<^verbatim>\<open>IsQuoteEnhanced("Alphabet> x", [])\<close> is true as well, whatever the table of letters
  beyond Latin-1; with the one previous line \<^verbatim>\<open>"<abc"\<close>, which opens a bracket that nothing
  closes, \<^verbatim>\<open>IsQuoteEnhanced("Alphabet> x", ["<abc"])\<close> is false.
\<close>

theorem IsQuoteEnhanced_examples:
  "IsQuoteEnhanced letters ''Bob> hello'' []
   \<and> IsQuoteEnhanced letters ''Alphabet> x'' []
   \<and> \<not> IsQuoteEnhanced letters ''Alphabet> x'' [''<abc'']"
  using IsQuoteEnhanced_Bob [of letters] context_open_bracket
  by (simp add: Alphabet_context checkPreviousLinesContext_def)

theorem IsQuoteEnhanced_examples_witness:
  "IsQuoteEnhanced (\<lambda>r. 0x100 \<le> r) ''Bob> hello'' []
   \<and> \<not> IsQuoteEnhanced (\<lambda>r. 0x100 \<le> r) ''Alphabet> x'' [''<abc'']"
  using IsQuoteEnhanced_examples [of "\<lambda>r. 0x100 \<le> r"] by simp

lemma splitLoop_no_sep: "sep \<notin> set s \<Longrightarrow> splitLoop sep s cur = [cur @ s]"
  by (induction s arbitrary: cur) auto

lemma WordWrapQuoteAware_one_line:
  assumes "LF \<notin> set line" and "line \<noteq> []" and "GetQuoteString line = (quoteStr, quoteLen)"
  shows "WordWrapQuoteAware line width quotemargin =
     (if int (length line) \<le> (if quoteLen > 0 then quotemargin else width) then Inr [line]
      else if quoteLen > length line then Inl SliceBoundsOutOfRange
      else Inr (map (\<lambda>wrappedLine. quoteStr @ wrappedLine)
                  (wrapTextContent (drop quoteLen line)
                     ((if quoteLen > 0 then quotemargin else width) - int quoteLen))))"
  using assms
  by (simp add: WordWrapQuoteAware_def SplitByte_def splitLoop_no_sep Let_def)

lemma marker_of_broken_line:
  "GetQuoteString [CHR 0xFF, CHR ''>''] = (EncodeRune 0xFFFD @ EncodeRune 0x3E, 4)"
proof -
  let ?rs = "[0xFFFD, 0x3E] :: rune list"
  have r: "ToRunes [CHR 0xFF, CHR ''>''] = ?rs"
    by (simp add: RuneError_def)
  have q: "IsQuoteBasic [CHR 0xFF, CHR ''>'']"
    by (simp add: IsQuoteBasic_window quoteInWindowFromStart_def RuneError_def IsSpace_def
        IsControl_def isStop)
  have s: "skipWhile (\<lambda>r. IsSpace r \<or> r = 0x0A) ?rs 0 = 0"
    "skipWhile (\<lambda>r. \<not> IsQuoteChar r) ?rs 0 = 1"
    "skipWhile IsQuoteChar ?rs (Suc 0) = 2"
    by (simp_all add: skipWhile_takeWhile IsSpace_def IsQuoteChar_def)
  have l: "length (EncodeRune 0xFFFD) = 3" "length (EncodeRune 0x3E) = 1"
    by (simp_all add: EncodeRune_def)
  have b: "buildQuote ?rs 2 0 [] = EncodeRune 0xFFFD @ EncodeRune 0x3E"
    by (simp add: buildQuote.simps MaxQuoteLen_def l)
  show ?thesis
    by (simp add: GetQuoteString_def q RuneError_def Let_def s b l)
qed

lemma GetQuoteString_steps:
  assumes "IsQuoteBasic line" and "ToRunes line = runes"
    and "skipWhile (\<lambda>r. IsSpace r \<or> r = 0x0A) runes 0 = start0"
    and "skipWhile (\<lambda>r. \<not> IsQuoteChar r) runes start0 = start"
    and "start < length runes"
    and "skipWhile IsQuoteChar runes start = end0"
    and "(if end0 < length runes \<and> (IsSpace (runes ! end0) \<or> runes ! end0 = 0x0A)
          then end0 + 1 else end0) = end"
  shows "GetQuoteString line = (buildQuote runes end 0 [], length (buildQuote runes end 0 []))"
  using assms by (simp add: GetQuoteString_def Let_def)

lemma marker_of_long_broken_line: "snd (GetQuoteString brokenLine) = 32"
proof -
  let ?rs = "[0xFFFD, 0xFFFD, 0xFFFD, 0xFFFD, 0xFFFD, 0xFFFD, 0xFFFD, 0xFFFD, 0xFFFD, 0xFFFD,
              0x3E, 0x20, 104, 101, 108, 108, 111, 0x20, 119, 111, 114] :: rune list"
  have r: "ToRunes brokenLine = ?rs"
    by (simp add: RuneError_def brokenLine_def)
  have "quoteInWindowFromStart ?rs"
    by (simp add: quoteInWindowFromStart_def IsSpace_def IsControl_def isStop)
  then have q: "IsQuoteBasic brokenLine"
    unfolding IsQuoteBasic_window r .
  have s: "skipWhile (\<lambda>r. IsSpace r \<or> r = 0x0A) ?rs 0 = 0"
    "skipWhile (\<lambda>r. \<not> IsQuoteChar r) ?rs 0 = 10"
    "skipWhile IsQuoteChar ?rs 10 = 11"
    by (simp_all add: skipWhile_takeWhile IsSpace_def IsQuoteChar_def)
  have l: "length (EncodeRune 0xFFFD) = 3" "length (EncodeRune 0x3E) = 1"
    "length (EncodeRune 0x20) = 1"
    by (simp_all add: EncodeRune_def)
  have b: "length (buildQuote ?rs 12 0 []) = 32"
    by (simp add: buildQuote.simps MaxQuoteLen_def l)
  show ?thesis
    by (subst GetQuoteString_steps [OF q r s(1) s(2) _ s(3), of 12])
      (simp_all add: b IsSpace_def)
qed

lemma long_broken_line_panics:
  "WordWrapQuoteAware brokenLine 80 20 = Inl SliceBoundsOutOfRange"
proof -
  obtain quoteStr where g: "GetQuoteString brokenLine = (quoteStr, 32)"
    using marker_of_long_broken_line by (metis prod.collapse)
  have n: "LF \<notin> set brokenLine" "brokenLine \<noteq> []" "length brokenLine = 21"
    by (simp_all add: LF_def brokenLine_def)
  show ?thesis
    using WordWrapQuoteAware_one_line [OF n(1,2) g, of 80 20] n(3)
    by simp
qed

text \<open>
  Apart from the panic, one line without a line feed is wrapped as the specification
  says: a line that is not quoted and fits the width comes back as it is, and every
  output line of a quoted line longer than the quote margin starts with the marker.
\<close>

lemma WordWrapQuoteAware_unquoted_fits:
  assumes "LF \<notin> set line" and "snd (GetQuoteString line) = 0" and "int (length line) \<le> width"
  shows "WordWrapQuoteAware line width quotemargin = Inr [line]"
proof (cases "line = []")
  case True
  then show ?thesis by (simp add: WordWrapQuoteAware_def)
next
  case False
  obtain quoteStr where "GetQuoteString line = (quoteStr, 0)"
    using assms(2) by (metis prod.collapse)
  from WordWrapQuoteAware_one_line [OF assms(1) False this, of width quotemargin] assms(3)
  show ?thesis by simp
qed

lemma WordWrapQuoteAware_marker_prefix:
  assumes "LF \<notin> set line" and "GetQuoteString line = (quoteStr, quoteLen)"
    and "quoteLen > 0" and "int (length line) > quotemargin" and "quoteLen \<le> length line"
  shows "\<exists>lines. WordWrapQuoteAware line width quotemargin = Inr lines
            \<and> (\<forall>l\<in>set lines. prefix quoteStr l)"
proof -
  from assms(3,5) have "line \<noteq> []" by auto
  from WordWrapQuoteAware_one_line [OF assms(1) this assms(2), of width quotemargin] assms(3-5)
  show ?thesis by auto
qed

text \<open>
  C5. The line of the two bytes 0xFF and \<^verbatim>\<open>'>'\<close> is quoted and longer than the quote
  margin 1. \<^verbatim>\<open>GetQuoteString\<close> returns a marker of 4 bytes, since the byte 0xFF is
  decoded as U+FFFD and written back as three bytes, and \<^verbatim>\<open>WordWrapQuoteAware\<close> panics
  on the slice \<^verbatim>\<open>line[contentStart:]\<close> instead of producing output lines. So it does
  with the quote margin 20 on a line of 21 bytes whose marker is written back as 32
  bytes.
\<close>

theorem WordWrapQuoteAware_panics:
  "GetQuoteString [CHR 0xFF, CHR ''>''] = ([CHR 0xEF, CHR 0xBF, CHR 0xBD, CHR ''>''], 4)
   \<and> WordWrapQuoteAware [CHR 0xFF, CHR ''>''] 1 1 = Inl SliceBoundsOutOfRange
   \<and> length brokenLine = 21 \<and> snd (GetQuoteString brokenLine) = 32
   \<and> WordWrapQuoteAware brokenLine 80 20 = Inl SliceBoundsOutOfRange"
proof -
  have c: "char_of (239::nat) = CHR 0xEF" "char_of (191::nat) = CHR 0xBF"
    "char_of (189::nat) = CHR 0xBD" "char_of (62::nat) = CHR ''>''"
    by (rule of_char_eqI [where ?'a = nat], simp)+
  have e: "EncodeRune 0xFFFD = [CHR 0xEF, CHR 0xBF, CHR 0xBD]" "EncodeRune 0x3E = ''>''"
    by (simp_all add: EncodeRune_def c)
  have "length brokenLine = 21"
    by (simp add: brokenLine_def)
  then show ?thesis
    using marker_of_long_broken_line long_broken_line_panics
    by (simp add: WordWrapQuoteAware_def SplitByte_def LF_def marker_of_broken_line e)
qed

section \<open>Unread messages\<close>

lemma AreaHasUnreadMessages_iff:
  "AreaHasUnreadMessages getCount getLast area \<longleftrightarrow> getCount area \<noteq> getLast area"
  by (simp add: AreaHasUnreadMessages_def word_greater_zero_iff)

text \<open>
  C8. The echo area 7 holds two messages, the count cache is invalid and the last-read
  store is not enabled. The user reads the second message (\<^verbatim>\<open>SetLast(2)\<close>) and
  deletes it (\<^verbatim>\<open>DelMsg(2)\<close>). Then \<^verbatim>\<open>GetCount()\<close> is 1 and \<^verbatim>\<open>GetLast()\<close> is 2: the
  difference wraps around to 4294967295 and \<^verbatim>\<open>AreaHasUnreadMessages\<close> reports unread
  messages, although the count is not greater than the last-read position.
\<close>

theorem AreaHasUnreadMessages_wraps_around:
  "GetCount noCache twoDB readArea = 2
   \<and> DelMsg readArea twoDB 2 = (None, readArea, arrivedDB)
   \<and> GetCount noCache arrivedDB readArea = 1
   \<and> GetLast utf8Config None readArea = 2
   \<and> AreaHasUnreadMessages (GetCount noCache arrivedDB) (GetLast utf8Config None) readArea
   \<and> GetCount noCache arrivedDB readArea - GetLast utf8Config None readArea = 4294967295"
proof -
  have c2: "GetCount noCache twoDB readArea = 2"
    by (simp add: GetCount_def gormCount_def noCache_def twoDB_def arrivedDB_def emptyDB_def
        readArea_record)
  have d: "DelMsg readArea twoDB 2 = (None, readArea, arrivedDB)"
    by (simp add: DelMsg_def deleteEchomailMessage_def gormFirst_def twoDB_def arrivedDB_def
        emptyDB_def readArea_record Let_def)
  have c: "GetCount noCache arrivedDB readArea = 1"
    by (simp add: GetCount_def gormCount_def noCache_def arrivedDB_def emptyDB_def readArea_record)
  have l: "GetLast utf8Config None readArea = 2"
    by (simp add: GetLast_def IsLastReadEnabled_def readArea_record)
  show ?thesis
    by (simp add: c2 d c l AreaHasUnreadMessages_iff)
qed

end
